theory Spec2Isabelle
  imports Complex_Main "HOL-Library.Sublist"
begin

section \<open>JavaScript values used by the two services\<close>

text \<open>
  Strings are lists of 8-bit characters, read as the UTF-16 code units U+0000 to U+00FF.
  A JavaScript number is an IEEE binary64 value. It is modelled by its exact rational
  value, or one of the two infinities, or NaN. The two zeros are identified: the
  services apply only \<^verbatim>\<open>||\<close>, \<^verbatim>\<open><\<close>, \<^verbatim>\<open>>\<close>, \<^verbatim>\<open>>=\<close> and \<^verbatim>\<open>===\<close> to
  numbers, and none of them tells \<^verbatim>\<open>-0\<close> from \<^verbatim>\<open>+0\<close>.
\<close>

datatype jsnum = NaN | Fin rat | PosInf | NegInf

fun js_lt :: "jsnum \<Rightarrow> jsnum \<Rightarrow> bool" where
  "js_lt NaN _ = False"
| "js_lt _ NaN = False"
| "js_lt (Fin a) (Fin b) = (a < b)"
| "js_lt (Fin a) PosInf = True"
| "js_lt (Fin a) NegInf = False"
| "js_lt PosInf _ = False"
| "js_lt NegInf NegInf = False"
| "js_lt NegInf _ = True"

definition js_gt :: "jsnum \<Rightarrow> jsnum \<Rightarrow> bool" where
  "js_gt a b = js_lt b a"

text \<open>\<^verbatim>\<open>a >= b\<close>: false when either side is NaN, otherwise the negation of \<^verbatim>\<open>a < b\<close>.\<close>

definition js_ge :: "jsnum \<Rightarrow> jsnum \<Rightarrow> bool" where
  "js_ge a b = (a \<noteq> NaN \<and> b \<noteq> NaN \<and> \<not> js_lt a b)"

text \<open>\<^verbatim>\<open>a === b\<close> on numbers: NaN is not equal to itself.\<close>

definition js_eq :: "jsnum \<Rightarrow> jsnum \<Rightarrow> bool" where
  "js_eq a b = (a \<noteq> NaN \<and> a = b)"

text \<open>\<^verbatim>\<open>x || 0\<close> on a number: the falsy numbers are NaN and zero.\<close>

definition or_zero :: "jsnum \<Rightarrow> jsnum" where
  "or_zero x = (if x = NaN \<or> x = Fin 0 then Fin 0 else x)"

subsection \<open>Rounding to binary64\<close>

fun bit_length :: "nat \<Rightarrow> nat" where
  "bit_length n = (if n = 0 then 0 else Suc (bit_length (n div 2)))"

declare bit_length.simps [simp del]

definition pow2 :: "int \<Rightarrow> rat" where
  "pow2 e = (if 0 \<le> e then 2 ^ nat e else 1 / 2 ^ nat (- e))"

text \<open>For \<open>0 < q\<close>, the exponent \<open>e\<close> with \<open>2^e \<le> q < 2^(e+1)\<close>.\<close>

definition binade :: "rat \<Rightarrow> int" where
  "binade q =
     (let (a, b) = quotient_of q;
          d = int (bit_length (nat a)) - int (bit_length (nat b))
      in if pow2 d \<le> q then d else d - 1)"

definition round_half_even :: "rat \<Rightarrow> int" where
  "round_half_even q =
     (let f = \<lfloor>q\<rfloor>; r = q - of_int f
      in if r < 1 / 2 then f else if 1 / 2 < r then f + 1
         else if even f then f else f + 1)"

text \<open>
  Round to nearest, ties to even, with a 53-bit significand, subnormals below
  \<open>2^-1022\<close> and overflow to infinity.
\<close>

definition round_binary64 :: "rat \<Rightarrow> jsnum" where
  "round_binary64 q =
     (if q = 0 then Fin 0
      else
        let a = \<bar>q\<bar>;
            e = max (binade a) (- 1022);
            ulp = pow2 (e - 52);
            v = of_int (round_half_even (a / ulp)) * ulp
        in if pow2 1024 \<le> v then (if 0 < q then PosInf else NegInf)
           else Fin (if 0 < q then v else - v))"

text \<open>
  The number value of a rational: an integer of absolute value below \<open>2^53\<close> is a
  binary64 value and stands for itself; anything else is rounded.
\<close>

definition to_double :: "rat \<Rightarrow> jsnum" where
  "to_double q =
     (if of_int \<lfloor>q\<rfloor> = q \<and> \<bar>q\<bar> < 2 ^ 53 then Fin q else round_binary64 q)"

subsection \<open>Characters and strings\<close>

text \<open>
  The white space and line terminators of ECMAScript below U+0100: TAB, LF, VT, FF, CR,
  SP and NBSP.
\<close>

definition isWhiteSpace :: "char \<Rightarrow> bool" where
  "isWhiteSpace c = ((of_char c :: nat) \<in> {9, 10, 11, 12, 13, 32, 160})"

definition isDigit :: "char \<Rightarrow> bool" where
  "isDigit c = (48 \<le> (of_char c :: nat) \<and> (of_char c :: nat) \<le> 57)"

definition digitVal :: "char \<Rightarrow> nat" where
  "digitVal c = of_char c - 48"

definition digits_value :: "string \<Rightarrow> nat" where
  "digits_value ds = foldl (\<lambda>a c. 10 * a + digitVal c) 0 ds"

text \<open>\<^verbatim>\<open>String.prototype.trim\<close>.\<close>

definition js_trim :: "string \<Rightarrow> string" where
  "js_trim s = rev (dropWhile isWhiteSpace (rev (dropWhile isWhiteSpace s)))"

text \<open>\<^verbatim>\<open>String.prototype.toLowerCase\<close> on U+0000 to U+00FF.\<close>

definition lowerChar :: "char \<Rightarrow> char" where
  "lowerChar c =
     (let n = (of_char c :: nat)
      in if (65 \<le> n \<and> n \<le> 90) \<or> (192 \<le> n \<and> n \<le> 222 \<and> n \<noteq> 215)
         then char_of (n + 32) else c)"

definition toLowerCase :: "string \<Rightarrow> string" where
  "toLowerCase s = map lowerChar s"

text \<open>\<^verbatim>\<open>s.includes(p)\<close> and \<^verbatim>\<open>s.startsWith(p)\<close>.\<close>

fun js_includes :: "string \<Rightarrow> string \<Rightarrow> bool" where
  "js_includes [] p = (p = [])"
| "js_includes (c # cs) p = (prefix p (c # cs) \<or> js_includes cs p)"

definition startsWith :: "string \<Rightarrow> string \<Rightarrow> bool" where
  "startsWith s p = prefix p s"

text \<open>
  \<^verbatim>\<open>s.split(sep)\<close> for a non-empty separator: the pieces between the successive
  leftmost occurrences of the separator; the empty string gives one empty piece.
\<close>

function js_split :: "string \<Rightarrow> string \<Rightarrow> string list" where
  "js_split sep [] = [[]]"
| "js_split sep (c # cs) =
     (if sep \<noteq> [] \<and> prefix sep (c # cs)
      then [] # js_split sep (drop (length sep) (c # cs))
      else (case js_split sep cs of [] \<Rightarrow> [[c]] | w # ws \<Rightarrow> (c # w) # ws))"
  by pat_completeness auto
termination
  by (relation "measure (\<lambda>(sep, s). length s)") (auto simp: neq_Nil_conv)

text \<open>
  \<^verbatim>\<open>parseInt(s, 10)\<close>: leading white space is skipped, one sign is read, then the
  longest run of decimal digits; no digit gives NaN.
\<close>

definition js_parseInt :: "string \<Rightarrow> jsnum" where
  "js_parseInt s =
     (let t = dropWhile isWhiteSpace s;
          neg = (case t of [] \<Rightarrow> False | c # _ \<Rightarrow> c = CHR ''-'');
          u = (case t of [] \<Rightarrow> [] | c # cs \<Rightarrow> if c = CHR ''+'' \<or> c = CHR ''-'' then cs else t);
          z = takeWhile isDigit u
      in if z = [] then NaN
         else to_double ((if neg then - 1 else 1) * of_nat (digits_value z)))"

text \<open>
  \<^verbatim>\<open>Number(s)\<close> on a string without a dot (every argument below is a piece of
  \<^verbatim>\<open>split('.')\<close>): white space is trimmed on both sides; the empty string is 0; then
  a binary, octal or hexadecimal integer literal, or a signed decimal literal with an
  optional exponent, or a signed \<^verbatim>\<open>Infinity\<close>; anything else is NaN.
\<close>

definition hexVal :: "char \<Rightarrow> nat" where
  "hexVal c =
     (let n = (of_char c :: nat)
      in if 48 \<le> n \<and> n \<le> 57 then n - 48
         else if 97 \<le> n \<and> n \<le> 102 then n - 87
         else if 65 \<le> n \<and> n \<le> 70 then n - 55
         else 16)"

definition radix_value :: "nat \<Rightarrow> string \<Rightarrow> nat" where
  "radix_value r ds = foldl (\<lambda>a c. r * a + hexVal c) 0 ds"

definition radix_digits :: "nat \<Rightarrow> string \<Rightarrow> bool" where
  "radix_digits r ds = (ds \<noteq> [] \<and> list_all (\<lambda>c. hexVal c < r) ds)"

definition non_decimal_literal :: "string \<Rightarrow> nat option" where
  "non_decimal_literal t =
     (case t of
        c0 # c1 # ds \<Rightarrow>
          if c0 \<noteq> CHR ''0'' then None
          else if (c1 = CHR ''x'' \<or> c1 = CHR ''X'') \<and> radix_digits 16 ds
            then Some (radix_value 16 ds)
          else if (c1 = CHR ''o'' \<or> c1 = CHR ''O'') \<and> radix_digits 8 ds
            then Some (radix_value 8 ds)
          else if (c1 = CHR ''b'' \<or> c1 = CHR ''B'') \<and> radix_digits 2 ds
            then Some (radix_value 2 ds)
          else None
      | _ \<Rightarrow> None)"

definition exponent_part :: "string \<Rightarrow> int option" where
  "exponent_part r =
     (case r of
        [] \<Rightarrow> Some 0
      | c # r' \<Rightarrow>
          if c = CHR ''e'' \<or> c = CHR ''E'' then
            (let neg = (case r' of [] \<Rightarrow> False | d # _ \<Rightarrow> d = CHR ''-'');
                 ds = (case r' of [] \<Rightarrow> []
                       | d # r'' \<Rightarrow> if d = CHR ''+'' \<or> d = CHR ''-'' then r'' else r')
             in if radix_digits 10 ds
                then Some ((if neg then - 1 else 1) * int (digits_value ds))
                else None)
          else None)"

definition unsigned_decimal_literal :: "string \<Rightarrow> rat option" where
  "unsigned_decimal_literal u =
     (let m = takeWhile isDigit u
      in if m = [] then None
         else (case exponent_part (dropWhile isDigit u) of
                 None \<Rightarrow> None
               | Some e \<Rightarrow>
                   Some (if 0 \<le> e then of_nat (digits_value m) * 10 ^ nat e
                         else of_nat (digits_value m) / 10 ^ nat (- e))))"

definition js_Number :: "string \<Rightarrow> jsnum" where
  "js_Number s =
     (let t = js_trim s
      in if t = [] then Fin 0
         else (case non_decimal_literal t of
                 Some n \<Rightarrow> to_double (of_nat n)
               | None \<Rightarrow>
                   (let neg = (case t of [] \<Rightarrow> False | c # _ \<Rightarrow> c = CHR ''-'');
                        u = (case t of [] \<Rightarrow> []
                             | c # cs \<Rightarrow> if c = CHR ''+'' \<or> c = CHR ''-'' then cs else t)
                    in if u = ''Infinity'' then (if neg then NegInf else PosInf)
                       else (case unsigned_decimal_literal u of
                               None \<Rightarrow> NaN
                             | Some q \<Rightarrow> to_double (if neg then - q else q)))))"

section \<open>The version comparator of both services\<close>

text \<open>
  \<^verbatim>\<open>parts[i] || 0\<close>: an index past the end reads \<^verbatim>\<open>undefined\<close>, which is falsy.
\<close>

definition part_or_zero :: "jsnum list \<Rightarrow> nat \<Rightarrow> jsnum" where
  "part_or_zero parts i = (if i < length parts then or_zero (parts ! i) else Fin 0)"

text \<open>
  The loop of \<^verbatim>\<open>compareVersions\<close>, the same text in both services:
  \<^verbatim>\<open>
  for (let i = 0; i < Math.max(parts1.length, parts2.length); i++) {
    const p1 = parts1[i] || 0;
    const p2 = parts2[i] || 0;
    if (p1 < p2) return -1;
    if (p1 > p2) return 1;
  }
  return 0;
  \<close>
\<close>

function compare_loop :: "jsnum list \<Rightarrow> jsnum list \<Rightarrow> nat \<Rightarrow> int" where
  "compare_loop parts1 parts2 i =
     (if i < max (length parts1) (length parts2) then
        (let p1 = part_or_zero parts1 i; p2 = part_or_zero parts2 i
         in if js_lt p1 p2 then - 1
            else if js_gt p1 p2 then 1
            else compare_loop parts1 parts2 (i + 1))
      else 0)"
  by pat_completeness auto
termination
  by (relation "measure (\<lambda>(parts1, parts2, i). max (length parts1) (length parts2) - i)") auto

declare compare_loop.simps [simp del]

text \<open>
  \<^verbatim>\<open>NpmRegistryService.compareVersions\<close>: the parts are
  \<^verbatim>\<open>v.split('.').map(p => parseInt(p, 10) || 0)\<close>.
\<close>

definition registry_parts :: "string \<Rightarrow> jsnum list" where
  "registry_parts v = map (\<lambda>p. or_zero (js_parseInt p)) (js_split ''.'' v)"

definition registry_compareVersions :: "string \<Rightarrow> string \<Rightarrow> int" where
  "registry_compareVersions v1 v2 = compare_loop (registry_parts v1) (registry_parts v2) 0"

text \<open>
  \<^verbatim>\<open>DependencyAnalyzerService.compareVersions\<close>: the parts are
  \<^verbatim>\<open>v.split('.').map(Number)\<close>.
\<close>

definition analyzer_parts :: "string \<Rightarrow> jsnum list" where
  "analyzer_parts v = map js_Number (js_split ''.'' v)"

definition analyzer_compareVersions :: "string \<Rightarrow> string \<Rightarrow> int" where
  "analyzer_compareVersions v1 v2 = compare_loop (analyzer_parts v1) (analyzer_parts v2) 0"

text \<open>
  \<^verbatim>\<open>cleanVersion\<close>, the same in both services:
  \<^verbatim>\<open>version.replace(/[\^~>=<]/g, '')\<close>.
\<close>

definition cleanVersion :: "string \<Rightarrow> string" where
  "cleanVersion version = filter (\<lambda>c. c \<notin> set ''^~>=<'') version"

text \<open>
  \<^verbatim>\<open>sortVersionsDescending\<close>: \<^verbatim>\<open>versions.sort((a, b) => this.compareVersions(b, a))\<close>.
  \<^verbatim>\<open>Array.prototype.sort\<close> is stable; with a comparator that is a total preorder (the
  registry comparator is one, as proved below) its result is the stable sorted
  permutation, computed here by insertion from the right: an element goes before the
  first later element that the comparator does not put strictly before it.
\<close>

fun sort_insert :: "string \<Rightarrow> string list \<Rightarrow> string list" where
  "sort_insert a [] = [a]"
| "sort_insert a (b # bs) =
     (if registry_compareVersions b a \<le> 0 then a # b # bs else b # sort_insert a bs)"

definition sortVersionsDescending :: "string list \<Rightarrow> string list" where
  "sortVersionsDescending versions = foldr sort_insert versions []"

section \<open>NpmRegistryService\<close>

text \<open>
  The registry metadata of one package, as far as the service reads it: the
  \<^verbatim>\<open>versions\<close> object in its enumeration order, each version with its optional
  \<^verbatim>\<open>peerDependencies\<close> object, and \<^verbatim>\<open>info['dist-tags']?.latest\<close>. The field
  \<^verbatim>\<open>time\<close> is never read.
\<close>

record version_data =
  peerDependencies :: "(string \<times> string) list option"

record NpmPackageInfo =
  pkg_name :: string
  versions :: "(string \<times> version_data) list"
  dist_tags_latest :: "string option"

text \<open>
  \<^verbatim>\<open>getPackageInfo\<close>: the HTTP request either fails or delivers the metadata;
  \<^verbatim>\<open>catchError\<close> turns a failure into \<^verbatim>\<open>null\<close>.
\<close>

datatype http_error = HttpError nat

type_synonym registry = "string \<Rightarrow> http_error + NpmPackageInfo"

definition getPackageInfo :: "registry \<Rightarrow> string \<Rightarrow> NpmPackageInfo option" where
  "getPackageInfo reg packageName =
     (case reg packageName of Inl error \<Rightarrow> None | Inr info \<Rightarrow> Some info)"

definition preReleasePatterns :: "string list" where
  "preReleasePatterns =
     [''canary'', ''beta'', ''rc'', ''alpha'', ''next'', ''dev'',
      ''snapshot'', ''preview'', ''experimental'']"

definition isPreReleaseVersion :: "string \<Rightarrow> bool" where
  "isPreReleaseVersion version =
     (let lowerVersion = toLowerCase version
      in list_ex (\<lambda>pattern. js_includes lowerVersion pattern) preReleasePatterns)"

text \<open>\<^verbatim>\<open>pattern.match(/(\d+)/)\<close>: the first run of decimal digits, if there is one.\<close>

definition match_digits :: "string \<Rightarrow> string option" where
  "match_digits pattern =
     (let ds = takeWhile isDigit (dropWhile (\<lambda>c. \<not> isDigit c) pattern)
      in if ds = [] then None else Some ds)"

text \<open>The loop of \<^verbatim>\<open>versionSatisfiesPeerDep\<close> over the alternatives.\<close>

fun satisfies_loop :: "jsnum \<Rightarrow> string list \<Rightarrow> bool" where
  "satisfies_loop targetMajor [] = False"
| "satisfies_loop targetMajor (pattern # rest) =
     (case match_digits pattern of
        None \<Rightarrow> satisfies_loop targetMajor rest
      | Some m \<Rightarrow>
          (let constraintMajor = js_parseInt m
           in if js_includes pattern ''>='' then
                (if js_ge targetMajor constraintMajor then True
                 else satisfies_loop targetMajor rest)
              else if js_includes pattern ''^'' then
                (if js_eq targetMajor constraintMajor then True
                 else satisfies_loop targetMajor rest)
              else if js_includes pattern ''~'' then
                (if js_eq targetMajor constraintMajor then True
                 else satisfies_loop targetMajor rest)
              else satisfies_loop targetMajor rest))"

definition versionSatisfiesPeerDep :: "jsnum \<Rightarrow> string \<Rightarrow> bool" where
  "versionSatisfiesPeerDep targetMajor peerDepConstraint =
     satisfies_loop targetMajor (map js_trim (js_split ''||'' peerDepConstraint))"

text \<open>
  The body of the \<^verbatim>\<open>forEach\<close> in \<^verbatim>\<open>findVersionsCompatibleWithAngular\<close>: whether the
  version is pushed. \<^verbatim>\<open>!peerDeps\<close> holds for a missing object, \<^verbatim>\<open>!angularPeer\<close> for a
  missing entry and for the empty string.
\<close>

definition pushes_version :: "jsnum \<Rightarrow> bool \<Rightarrow> string \<times> version_data \<Rightarrow> bool" where
  "pushes_version targetMajor includePreRelease entry =
     (let version = fst entry; versionData = snd entry
      in if \<not> includePreRelease \<and> isPreReleaseVersion version then False
         else (case peerDependencies versionData of
                 None \<Rightarrow> True
               | Some peerDeps \<Rightarrow>
                   (case map_of peerDeps ''@angular/core'' of
                      None \<Rightarrow> True
                    | Some angularPeer \<Rightarrow>
                        if angularPeer = [] then True
                        else versionSatisfiesPeerDep targetMajor angularPeer)))"

fun compatible_loop :: "jsnum \<Rightarrow> bool \<Rightarrow> (string \<times> version_data) list \<Rightarrow> string list" where
  "compatible_loop targetMajor includePreRelease [] = []"
| "compatible_loop targetMajor includePreRelease (entry # entries) =
     (if pushes_version targetMajor includePreRelease entry
      then fst entry # compatible_loop targetMajor includePreRelease entries
      else compatible_loop targetMajor includePreRelease entries)"

definition findVersionsCompatibleWithAngular ::
  "NpmPackageInfo \<Rightarrow> string \<Rightarrow> bool \<Rightarrow> string list" where
  "findVersionsCompatibleWithAngular info targetAngularVersion includePreRelease =
     (let targetMajor = js_parseInt targetAngularVersion
      in compatible_loop targetMajor includePreRelease (versions info))"

text \<open>\<^verbatim>\<open>parseInt(v.split('.')[0], 10)\<close>; \<^verbatim>\<open>split\<close> always returns a first piece.\<close>

definition major_of :: "string \<Rightarrow> jsnum" where
  "major_of v = js_parseInt (hd (js_split ''.'' v))"

definition findBestAngularVersion :: "string list \<Rightarrow> string \<Rightarrow> string \<Rightarrow> string" where
  "findBestAngularVersion vs targetAngularVersion currentVersion =
     (let targetMajor = js_parseInt targetAngularVersion;
          currentMajor = major_of currentVersion;
          isCurrentPreRelease = isPreReleaseVersion currentVersion;
          targetMajorVersions0 = filter (\<lambda>v. js_eq (major_of v) targetMajor) vs;
          stableVersions = filter (\<lambda>v. \<not> isPreReleaseVersion v) targetMajorVersions0;
          targetMajorVersions =
            (if \<not> isCurrentPreRelease \<and> stableVersions \<noteq> [] then stableVersions
             else targetMajorVersions0)
      in if targetMajorVersions \<noteq> [] then hd (sortVersionsDescending targetMajorVersions)
         else if js_gt currentMajor targetMajor then currentVersion
         else targetAngularVersion @ ''.0.0'')"

text \<open>The name test of \<^verbatim>\<open>getBestVersion\<close> for the framework's own packages.\<close>

definition is_core_name :: "string \<Rightarrow> bool" where
  "is_core_name packageName =
     (startsWith packageName ''@angular/'' \<and> \<not> js_includes packageName ''material''
      \<and> \<not> js_includes packageName ''cdk'')"

text \<open>
  The part of \<^verbatim>\<open>getBestVersion\<close> after the candidate loop: the \<^verbatim>\<open>latest\<close> tag, or the
  current version when the tag is missing or empty; the highest stable version in its
  place when the tag is a pre-release and the current version is not; then the guard.
\<close>

definition fallback_version :: "NpmPackageInfo \<Rightarrow> string \<Rightarrow> string" where
  "fallback_version info cleanCurrent =
     (let vs = map fst (versions info);
          isCurrentPreRelease = isPreReleaseVersion cleanCurrent;
          latest0 = (case dist_tags_latest info of
                       None \<Rightarrow> cleanCurrent
                     | Some l \<Rightarrow> if l = [] then cleanCurrent else l);
          stableVersions = filter (\<lambda>v. \<not> isPreReleaseVersion v) vs;
          latest = (if \<not> isCurrentPreRelease \<and> isPreReleaseVersion latest0
                       \<and> stableVersions \<noteq> []
                    then hd (sortVersionsDescending stableVersions) else latest0)
      in if 0 \<le> registry_compareVersions latest cleanCurrent then latest else cleanCurrent)"

text \<open>
  The function that \<^verbatim>\<open>getBestVersion\<close> maps over the metadata, for metadata that is
  not \<^verbatim>\<open>null\<close>. The loop over the sorted candidates returns the first version that
  compares greater-or-equal to the cleaned current version.
\<close>

definition bestVersionOfInfo :: "NpmPackageInfo \<Rightarrow> string \<Rightarrow> string \<Rightarrow> string \<Rightarrow> string" where
  "bestVersionOfInfo info packageName targetAngularVersion currentVersion =
     (let vs = map fst (versions info);
          cleanCurrent = cleanVersion currentVersion;
          isCurrentPreRelease = isPreReleaseVersion cleanCurrent
      in if is_core_name packageName
         then findBestAngularVersion vs targetAngularVersion cleanCurrent
         else
           (let compatibleVersions =
                  findVersionsCompatibleWithAngular info targetAngularVersion isCurrentPreRelease
            in case find (\<lambda>version. 0 \<le> registry_compareVersions version cleanCurrent)
                      (sortVersionsDescending compatibleVersions) of
                 Some version \<Rightarrow> version
               | None \<Rightarrow> fallback_version info cleanCurrent))"

definition getBestVersion :: "registry \<Rightarrow> string \<Rightarrow> string \<Rightarrow> string \<Rightarrow> string option" where
  "getBestVersion reg packageName targetAngularVersion currentVersion =
     (case getPackageInfo reg packageName of
        None \<Rightarrow> None
      | Some info \<Rightarrow> Some (bestVersionOfInfo info packageName targetAngularVersion currentVersion))"

section \<open>DependencyAnalyzerService\<close>

text \<open>
  A JavaScript object is the list of its properties in enumeration order, with distinct
  names; no property name is a canonical array index (those would be enumerated first)
  or the name of a property of \<^verbatim>\<open>Object.prototype\<close> (a read of those finds the
  inherited value).
  A manifest property holds a map from names to strings, as \<^verbatim>\<open>PackageJson\<close> declares
  \<^verbatim>\<open>dependencies\<close> and \<^verbatim>\<open>devDependencies\<close>, or any other value, or \<^verbatim>\<open>undefined\<close>.
\<close>

datatype 'a jsvalue = Undefined | StringMap "(string \<times> string) list" | Other 'a

type_synonym 'a PackageJson = "(string \<times> 'a jsvalue) list"

text \<open>\<^verbatim>\<open>obj[key] = value\<close>: an existing property keeps its place, a new one goes last.\<close>

fun set_prop :: "(string \<times> 'b) list \<Rightarrow> string \<Rightarrow> 'b \<Rightarrow> (string \<times> 'b) list" where
  "set_prop [] key val = [(key, val)]"
| "set_prop ((k, v) # ps) key val =
     (if k = key then (k, val) # ps else (k, v) # set_prop ps key val)"

text \<open>\<^verbatim>\<open>{...acc, ...obj}\<close>: the properties of \<open>obj\<close> are assigned in order.\<close>

definition spread :: "(string \<times> 'b) list \<Rightarrow> (string \<times> 'b) list \<Rightarrow> (string \<times> 'b) list" where
  "spread acc obj = foldl (\<lambda>a (k, v). set_prop a k v) acc obj"

text \<open>\<^verbatim>\<open>obj.key\<close>, \<^verbatim>\<open>undefined\<close> when the property is missing.\<close>

definition get_prop :: "'a PackageJson \<Rightarrow> string \<Rightarrow> 'a jsvalue" where
  "get_prop obj key = (case map_of obj key of None \<Rightarrow> Undefined | Some v \<Rightarrow> v)"

text \<open>The properties that \<^verbatim>\<open>...packageJson.dependencies\<close> spreads.\<close>

definition map_entries :: "'a jsvalue \<Rightarrow> (string \<times> string) list" where
  "map_entries v = (case v of StringMap m \<Rightarrow> m | _ \<Rightarrow> [])"

text \<open>
  \<^verbatim>\<open>original.dependencies?.[name]\<close> as a condition: the entry exists and is not the
  empty string.
\<close>

definition has_truthy_entry :: "'a jsvalue \<Rightarrow> string \<Rightarrow> bool" where
  "has_truthy_entry v nm =
     (case map_of (map_entries v) nm of None \<Rightarrow> False | Some c \<Rightarrow> c \<noteq> [])"

datatype risk_level = low | medium | high

record DependencyAnalysis =
  name :: string
  currentVersion :: string
  latestVersion :: string
  recommendedVersion :: string
  isAngularPackage :: bool
  needsUpdate :: bool
  risk :: risk_level
  "notes" :: string

record AnalysisSummary =
  total :: nat
  needsUpdateCount :: nat
  lowRisk :: nat
  mediumRisk :: nat
  highRisk :: nat

record 'a AnalysisResult =
  original :: "'a PackageJson"
  updated :: "'a PackageJson"
  analysis :: "DependencyAnalysis list"
  summary :: AnalysisSummary

text \<open>The method \<^verbatim>\<open>isAngularPackage(name)\<close>.\<close>

definition isAngularPackageName :: "string \<Rightarrow> bool" where
  "isAngularPackageName nm =
     (startsWith nm ''@angular/'' \<and> \<not> js_includes nm ''material'' \<and> \<not> js_includes nm ''cdk'')"

definition isAngularEcosystemPackage :: "string \<Rightarrow> bool" where
  "isAngularEcosystemPackage nm =
     (startsWith nm ''ng-'' \<or> startsWith nm ''ngx-'' \<or> startsWith nm ''@ng-''
      \<or> js_includes nm ''@angular/material'' \<or> js_includes nm ''@angular/cdk''
      \<or> js_includes nm ''@ngrx/'')"

text \<open>
  \<^verbatim>\<open>analyzeDependency\<close>. \<^verbatim>\<open>bestVersion || cleanVersion\<close> takes the cleaned current
  version when the registry gave \<^verbatim>\<open>null\<close> or the empty string.
\<close>

definition analyzeDependency ::
  "registry \<Rightarrow> string \<Rightarrow> string \<Rightarrow> string \<Rightarrow> DependencyAnalysis" where
  "analyzeDependency reg nm currentVersion' targetAngularVersion =
     (let cleanVersion' = cleanVersion currentVersion';
          bestVersion = getBestVersion reg nm targetAngularVersion currentVersion';
          recommendedVersion' =
            (case bestVersion of
               None \<Rightarrow> cleanVersion'
             | Some b \<Rightarrow> if b = [] then cleanVersion' else b);
          isAngularPackage' = isAngularPackageName nm;
          risk' = (if isAngularEcosystemPackage nm then medium else low);
          comparison = analyzer_compareVersions cleanVersion' recommendedVersion';
          notes' =
            (if comparison < 0 then
               (if isAngularPackage' then ''Upgrade to match Angular '' @ targetAngularVersion
                else if isAngularEcosystemPackage nm
                  then ''Update available - verify compatibility with Angular ''
                       @ targetAngularVersion
                else ''Update available'')
             else if comparison = 0 then
               (if isAngularPackage' then ''Aligned with Angular '' @ targetAngularVersion
                else ''Up to date'')
             else ''Current version is newer'')
      in \<lparr> name = nm,
           currentVersion = cleanVersion',
           latestVersion = recommendedVersion',
           recommendedVersion = recommendedVersion',
           isAngularPackage = isAngularPackage',
           needsUpdate = (comparison < 0),
           risk = risk',
           notes = notes' \<rparr>)"

text \<open>The two maps that the \<^verbatim>\<open>forEach\<close> of \<^verbatim>\<open>buildResult\<close> fills.\<close>

definition rewritten_map :: "'a jsvalue \<Rightarrow> DependencyAnalysis list \<Rightarrow> (string \<times> string) list" where
  "rewritten_map deps analyses =
     foldl (\<lambda>acc a. if has_truthy_entry deps (name a)
                     then set_prop acc (name a) (''^'' @ recommendedVersion a) else acc)
       [] analyses"

definition buildResult :: "'a PackageJson \<Rightarrow> DependencyAnalysis list \<Rightarrow> 'a AnalysisResult" where
  "buildResult original' analyses =
     (let updatedDeps = rewritten_map (get_prop original' ''dependencies'') analyses;
          updatedDevDeps = rewritten_map (get_prop original' ''devDependencies'') analyses;
          updated' =
            set_prop
              (set_prop original' ''dependencies''
                 (if updatedDeps \<noteq> [] then StringMap updatedDeps
                  else get_prop original' ''dependencies''))
              ''devDependencies''
              (if updatedDevDeps \<noteq> [] then StringMap updatedDevDeps
               else get_prop original' ''devDependencies'');
          summary' =
            \<lparr> total = length analyses,
              needsUpdateCount = length (filter needsUpdate analyses),
              lowRisk = length (filter (\<lambda>a. risk a = low) analyses),
              mediumRisk = length (filter (\<lambda>a. risk a = medium) analyses),
              highRisk = length (filter (\<lambda>a. risk a = high) analyses) \<rparr>
      in \<lparr> original = original', updated = updated', analysis = analyses,
           summary = summary' \<rparr>)"

definition createEmptyResult :: "'a PackageJson \<Rightarrow> 'a AnalysisResult" where
  "createEmptyResult packageJson =
     \<lparr> original = packageJson, updated = packageJson, analysis = [],
       summary = \<lparr> total = 0, needsUpdateCount = 0, lowRisk = 0, mediumRisk = 0,
                   highRisk = 0 \<rparr> \<rparr>"

text \<open>
  \<^verbatim>\<open>allDeps\<close> is \<^verbatim>\<open>{...packageJson.dependencies, ...packageJson.devDependencies}\<close>.
\<close>

definition allDeps :: "'a PackageJson \<Rightarrow> (string \<times> string) list" where
  "allDeps packageJson =
     spread (spread [] (map_entries (get_prop packageJson ''dependencies'')))
       (map_entries (get_prop packageJson ''devDependencies''))"

text \<open>
  \<^verbatim>\<open>analyze\<close>: one request for each name of \<^verbatim>\<open>Object.keys(allDeps)\<close>, with the
  constraint \<^verbatim>\<open>allDeps[name]\<close>; \<^verbatim>\<open>forkJoin\<close> delivers the results in the order of the
  requests.
\<close>

definition analyze :: "registry \<Rightarrow> 'a PackageJson \<Rightarrow> string \<Rightarrow> 'a AnalysisResult" where
  "analyze reg packageJson targetAngularVersion =
     (let deps = allDeps packageJson
      in if deps = [] then createEmptyResult packageJson
         else buildResult packageJson
                (map (\<lambda>(nm, constraint). analyzeDependency reg nm constraint targetAngularVersion)
                   deps))"

section \<open>Definitions for the statements\<close>

text \<open>
  The comparison of two lists of parts that the loop computes, by recursion on the lists:
  a missing part counts as 0, and the first pair of parts that differ decides.
\<close>

definition step :: "jsnum \<Rightarrow> jsnum \<Rightarrow> int \<Rightarrow> int" where
  "step p1 p2 r = (if js_lt p1 p2 then - 1 else if js_lt p2 p1 then 1 else r)"

definition head_or_zero :: "jsnum list \<Rightarrow> jsnum" where
  "head_or_zero ps = (case ps of [] \<Rightarrow> Fin 0 | p # _ \<Rightarrow> or_zero p)"

fun lex_compare :: "jsnum list \<Rightarrow> jsnum list \<Rightarrow> int" where
  "lex_compare [] [] = 0"
| "lex_compare ps qs =
     step (head_or_zero ps) (head_or_zero qs) (lex_compare (tl ps) (tl qs))"

text \<open>A list of versions in descending order of the registry comparator.\<close>

definition descending :: "string list \<Rightarrow> bool" where
  "descending vs = sorted_wrt (\<lambda>a b. 0 \<le> registry_compareVersions a b) vs"

text \<open>
  The comparator as the specification words it: each string is split on the dot, every
  component is converted to an integer, a missing component is 0, and the first pair of
  components that differ decides. For the integer of a component there are two
  readings: the number that its leading decimal digits denote, the text after them
  being invisible, and 0 when it has none; or the number that the component denotes
  when it consists of decimal digits only, and 0 otherwise.
\<close>

definition spec_component :: "string \<Rightarrow> int" where
  "spec_component p = int (digits_value (takeWhile isDigit p))"

definition spec_component_strict :: "string \<Rightarrow> int" where
  "spec_component_strict p = (if list_all isDigit p then int (digits_value p) else 0)"

fun spec_compare_parts :: "int list \<Rightarrow> int list \<Rightarrow> int" where
  "spec_compare_parts [] [] = 0"
| "spec_compare_parts (x # xs) [] =
     (if x < 0 then - 1 else if 0 < x then 1 else spec_compare_parts xs [])"
| "spec_compare_parts [] (y # ys) =
     (if 0 < y then - 1 else if y < 0 then 1 else spec_compare_parts [] ys)"
| "spec_compare_parts (x # xs) (y # ys) =
     (if x < y then - 1 else if y < x then 1 else spec_compare_parts xs ys)"

definition spec_compare_with :: "(string \<Rightarrow> int) \<Rightarrow> string \<Rightarrow> string \<Rightarrow> int" where
  "spec_compare_with conv a b =
     spec_compare_parts (map conv (js_split ''.'' a)) (map conv (js_split ''.'' b))"

definition spec_compare :: "string \<Rightarrow> string \<Rightarrow> int" where
  "spec_compare = spec_compare_with spec_component"

text \<open>
  A component as version strings have them: it does not begin with white space or a
  sign, and the number of its leading digits is below \<open>2^53\<close>.
\<close>

definition plain_component :: "string \<Rightarrow> bool" where
  "plain_component p =
     ((case p of
         [] \<Rightarrow> True
       | c # _ \<Rightarrow> \<not> isWhiteSpace c \<and> c \<noteq> CHR ''+'' \<and> c \<noteq> CHR ''-'')
      \<and> digits_value (takeWhile isDigit p) < 2 ^ 53)"

text \<open>
  When one alternative of a peer constraint satisfies a target major, in the words of the
  specification: the alternative has a first run of digits \<open>m\<close>, and it contains
  \<^verbatim>\<open>>=\<close> and the target is at least \<open>m\<close>, or it contains \<^verbatim>\<open>^\<close> or \<^verbatim>\<open>~\<close> and the
  target equals \<open>m\<close>.
\<close>

definition alternative_satisfies :: "jsnum \<Rightarrow> string \<Rightarrow> bool" where
  "alternative_satisfies targetMajor alt =
     (case match_digits alt of
        None \<Rightarrow> False
      | Some m \<Rightarrow>
          (js_includes alt ''>='' \<and> js_ge targetMajor (js_parseInt m))
          \<or> ((js_includes alt ''^'' \<or> js_includes alt ''~'')
              \<and> js_eq targetMajor (js_parseInt m)))"

text \<open>The constraint that a version declares on the framework-core package, if any.\<close>

definition core_peer :: "version_data \<Rightarrow> string option" where
  "core_peer versionData =
     (case peerDependencies versionData of
        None \<Rightarrow> None
      | Some peerDeps \<Rightarrow> map_of peerDeps ''@angular/core'')"

text \<open>
  The candidates in the words of the specification: a version that is not a pre-release,
  or any version when pre-releases are admitted, which declares no constraint on the
  framework-core package or one that the target major satisfies.
\<close>

definition spec_candidate :: "jsnum \<Rightarrow> bool \<Rightarrow> string \<times> version_data \<Rightarrow> bool" where
  "spec_candidate targetMajor admitPreRelease entry =
     ((admitPreRelease \<or> \<not> isPreReleaseVersion (fst entry))
      \<and> (case core_peer (snd entry) of
            None \<Rightarrow> True
          | Some constraint \<Rightarrow> versionSatisfiesPeerDep targetMajor constraint))"

text \<open>The same, with an empty constraint counted as no constraint.\<close>

definition candidate :: "jsnum \<Rightarrow> bool \<Rightarrow> string \<times> version_data \<Rightarrow> bool" where
  "candidate targetMajor admitPreRelease entry =
     ((admitPreRelease \<or> \<not> isPreReleaseVersion (fst entry))
      \<and> (case core_peer (snd entry) of
            None \<Rightarrow> True
          | Some constraint \<Rightarrow>
              constraint = [] \<or> versionSatisfiesPeerDep targetMajor constraint))"

subsection \<open>Example registry and manifests\<close>

definition info_forms :: NpmPackageInfo where
  "info_forms =
     \<lparr> pkg_name = ''@angular/forms'',
       versions = [(''17.0.0'', \<lparr> peerDependencies = None \<rparr>),
                   (''18.0.0'', \<lparr> peerDependencies = None \<rparr>)],
       dist_tags_latest = Some ''18.0.0'' \<rparr>"

definition info_core :: NpmPackageInfo where
  "info_core =
     \<lparr> pkg_name = ''@angular/core'',
       versions = [(''17.0.0'', \<lparr> peerDependencies = None \<rparr>),
                   (''17.1.0'', \<lparr> peerDependencies = None \<rparr>)],
       dist_tags_latest = Some ''17.1.0'' \<rparr>"

definition info_ngx :: NpmPackageInfo where
  "info_ngx =
     \<lparr> pkg_name = ''ngx-lib'',
       versions =
         [(''1.0.0'', \<lparr> peerDependencies = None \<rparr>),
          (''2.0.0'', \<lparr> peerDependencies = Some [(''@angular/core'', ''^17.0.0'')] \<rparr>),
          (''3.0.0'', \<lparr> peerDependencies = Some [(''@angular/core'', ''^18.0.0'')] \<rparr>)],
       dist_tags_latest = Some ''3.0.0'' \<rparr>"

definition info_beta :: NpmPackageInfo where
  "info_beta =
     \<lparr> pkg_name = ''ngx-beta'',
       versions = [(''1.0.0'', \<lparr> peerDependencies = None \<rparr>),
                   (''2.0.0'', \<lparr> peerDependencies = None \<rparr>),
                   (''3.0.0-beta.1'', \<lparr> peerDependencies = None \<rparr>)],
       dist_tags_latest = Some ''3.0.0-beta.1'' \<rparr>"

definition info_empty_peer :: NpmPackageInfo where
  "info_empty_peer =
     \<lparr> pkg_name = ''ngx-any'',
       versions = [(''1.0.0'', \<lparr> peerDependencies = Some [(''@angular/core'', [])] \<rparr>)],
       dist_tags_latest = Some ''1.0.0'' \<rparr>"

definition example_registry :: registry where
  "example_registry nm =
     (if nm = ''@angular/forms'' then Inr info_forms
      else if nm = ''@angular/core'' then Inr info_core
      else if nm = ''ngx-lib'' then Inr info_ngx
      else if nm = ''ngx-any'' then Inr info_empty_peer
      else if nm = ''ngx-beta'' then Inr info_beta
      else Inl (HttpError 404))"

definition manifest_forms :: "string PackageJson" where
  "manifest_forms =
     [(''name'', Other ''demo''),
      (''dependencies'', StringMap [(''@angular/forms'', ''^18.0.0'')])]"

definition manifest_batch :: "string PackageJson" where
  "manifest_batch =
     [(''name'', Other ''demo''),
      (''dependencies'', StringMap [(''ngx-lib'', ''^1.5.0''), (''left-pad'', ''~2.0.0'')])]"

definition manifest_empty_constraint :: "string PackageJson" where
  "manifest_empty_constraint =
     [(''name'', Other ''demo''),
      (''dependencies'', StringMap [(''left-pad'', []), (''ngx-lib'', ''^1.5.0'')])]"

definition manifest_both_groups :: "string PackageJson" where
  "manifest_both_groups =
     [(''name'', Other ''demo''),
      (''dependencies'', StringMap [(''ngx-lib'', ''^1.5.0'')]),
      (''devDependencies'', StringMap [(''left-pad'', ''~2.0.0''), (''ngx-lib'', ''^1.5.0'')])]"

text \<open>The decimal numeral of a natural number, the string form of an integer target.\<close>

definition digit_char :: "nat \<Rightarrow> char" where
  "digit_char d = char_of (48 + d)"

fun decimal :: "nat \<Rightarrow> string" where
  "decimal n = (if n < 10 then [digit_char n] else decimal (n div 10) @ [digit_char (n mod 10)])"

declare decimal.simps [simp del]

section \<open>Rounding\<close>

text \<open>
  An integer of absolute value below \<open>2^53\<close> is its own rounding, so the number value
  of a rational is its rounding in every case.
\<close>

lemma bit_length_le: "n < 2 ^ k \<Longrightarrow> bit_length n \<le> k"
proof (induction k arbitrary: n)
  case 0
  then show ?case by (simp add: bit_length.simps [of 0])
next
  case (Suc k)
  then have "n div 2 < 2 ^ k" by simp
  then have "bit_length (n div 2) \<le> k" by (rule Suc.IH)
  then show ?case by (simp add: bit_length.simps [of n])
qed

lemma bit_length_one: "bit_length (Suc 0) = Suc 0"
  by (simp add: bit_length.simps [of "Suc 0"] bit_length.simps [of 0])

lemma binade_int_le:
  assumes "0 < a" "a < 2 ^ 53"
  shows "binade (of_int a) \<le> 52"
proof -
  from assms have "nat a < 2 ^ 53" by (simp add: nat_less_iff)
  then have "bit_length (nat a) \<le> 53" by (rule bit_length_le)
  then show ?thesis
    by (simp add: binade_def quotient_of_int bit_length_one Let_def)
qed

lemma round_half_even_int: "round_half_even (of_int m) = m"
  by (simp add: round_half_even_def)

lemma round_binary64_pos_int:
  assumes "0 < a" "a < 2 ^ 53"
  shows "round_binary64 (of_int a) = Fin (of_int a)"
proof -
  define e where "e = max (binade (of_int a)) (- 1022)"
  define k where "k = nat (52 - e)"
  have e: "e \<le> 52" using binade_int_le [OF assms] by (simp add: e_def)
  have ulp: "pow2 (e - 52) = 1 / 2 ^ k"
    using e by (cases "e = 52") (simp_all add: pow2_def k_def)
  have "of_int a / (1 / 2 ^ k) = (of_int (a * 2 ^ k) :: rat)" by simp
  then have r: "round_half_even (of_int a / pow2 (e - 52)) = a * 2 ^ k"
    by (simp only: ulp round_half_even_int)
  have v: "of_int (a * 2 ^ k) * pow2 (e - 52) = (of_int a :: rat)"
    by (simp add: ulp)
  have "(of_int a :: rat) < 2 ^ 53"
    using assms(2) by (metis of_int_less_numeral_power_cancel_iff)
  also have "\<dots> \<le> 2 ^ 1024" by simp
  finally have small: "\<not> pow2 1024 \<le> (of_int a :: rat)" by (simp add: pow2_def)
  from assms(1) have pos: "0 < (of_int a :: rat)" by simp
  then have nz: "(of_int a :: rat) \<noteq> 0" by simp
  have "round_binary64 (of_int a) =
      (if pow2 1024 \<le> of_int (round_half_even (of_int a / pow2 (e - 52))) * pow2 (e - 52)
       then PosInf
       else Fin (of_int (round_half_even (of_int a / pow2 (e - 52))) * pow2 (e - 52)))"
    unfolding round_binary64_def Let_def e_def
    by (simp only: abs_of_pos [OF pos] nz pos if_True if_False)
  also have "\<dots> = Fin (of_int a)"
    by (simp only: r v small if_False)
  finally show ?thesis .
qed

lemma round_binary64_neg:
  "round_binary64 (- q) =
     (case round_binary64 q of
        Fin v \<Rightarrow> Fin (- v) | PosInf \<Rightarrow> NegInf | NegInf \<Rightarrow> PosInf | NaN \<Rightarrow> NaN)"
  by (cases "q = 0"; cases "0 < q") (auto simp: round_binary64_def Let_def)

lemma to_double_consistent:
  assumes "of_int \<lfloor>q\<rfloor> = q" "\<bar>q\<bar> < 2 ^ 53"
  shows "round_binary64 q = Fin q"
proof -
  obtain a where q: "q = of_int a" using assms(1) by metis
  from assms(2) have a: "\<bar>a\<bar> < 2 ^ 53"
    unfolding q by (metis of_int_abs of_int_less_numeral_power_cancel_iff)
  consider "a = 0" | "0 < a" | "a < 0" by linarith
  then show ?thesis
  proof cases
    case 1
    then show ?thesis by (simp add: q round_binary64_def)
  next
    case 2
    with a show ?thesis by (simp add: q round_binary64_pos_int)
  next
    case 3
    with a have "round_binary64 (of_int (- a)) = Fin (of_int (- a))"
      by (intro round_binary64_pos_int) simp_all
    then show ?thesis
      using round_binary64_neg [of "of_int (- a)"] by (simp add: q)
  qed
qed

lemma to_double_is_rounding: "to_double q = round_binary64 q"
  by (simp add: to_double_def to_double_consistent)

section \<open>Splitting\<close>

text \<open>No piece of a split on the dot contains a dot.\<close>

lemma js_split_not_Nil: "js_split sep s \<noteq> []"
  by (induction sep s rule: js_split.induct) (auto split: list.splits)

lemma js_split_dot_pieces: "p \<in> set (js_split ''.'' s) \<Longrightarrow> CHR ''.'' \<notin> set p"
proof (induction s arbitrary: p)
  case Nil
  then show ?case by simp
next
  case (Cons c cs)
  show ?case
  proof (cases "c = CHR ''.''")
    case True
    with Cons show ?thesis by auto
  next
    case False
    obtain w ws where ws: "js_split ''.'' cs = w # ws"
      using js_split_not_Nil [of "''.''" cs] by (cases "js_split ''.'' cs") auto
    with False Cons.prems have "p = c # w \<or> p \<in> set ws" by auto
    with False Cons.IH ws show ?thesis by auto
  qed
qed

section \<open>The order on JavaScript numbers\<close>

lemma js_lt_irrefl: "\<not> js_lt a a"
  by (cases a) auto

lemma js_lt_asym: "js_lt a b \<Longrightarrow> \<not> js_lt b a"
  by (cases a; cases b) auto

lemma js_lt_trans: "js_lt a b \<Longrightarrow> js_lt b c \<Longrightarrow> js_lt a c"
  by (cases a; cases b; cases c) auto

lemma js_lt_total: "a \<noteq> NaN \<Longrightarrow> b \<noteq> NaN \<Longrightarrow> \<not> js_lt a b \<Longrightarrow> \<not> js_lt b a \<Longrightarrow> a = b"
  by (cases a; cases b) auto

lemma or_zero_not_NaN: "or_zero x \<noteq> NaN"
  by (simp add: or_zero_def)

lemma head_or_zero_not_NaN: "head_or_zero ps \<noteq> NaN"
  by (simp add: head_or_zero_def or_zero_not_NaN split: list.split)

section \<open>The comparison loop\<close>

lemma compare_loop_flip: "compare_loop parts2 parts1 i = - compare_loop parts1 parts2 i"
proof (induction parts1 parts2 i rule: compare_loop.induct)
  case (1 parts1 parts2 i)
  show ?case
  proof (cases "i < max (length parts1) (length parts2)")
    case False
    then show ?thesis
      by (simp add: compare_loop.simps [of parts1 parts2 i]
          compare_loop.simps [of parts2 parts1 i] max.commute)
  next
    case True
    let ?p1 = "part_or_zero parts1 i" and ?p2 = "part_or_zero parts2 i"
    from True have T': "i < max (length parts2) (length parts1)"
      by (simp add: max.commute)
    consider "js_lt ?p1 ?p2" | "js_lt ?p2 ?p1" | "\<not> js_lt ?p1 ?p2" "\<not> js_lt ?p2 ?p1"
      by blast
    then show ?thesis
    proof cases
      case 1
      then show ?thesis using True T' js_lt_asym [OF 1]
        by (simp add: compare_loop.simps [of parts1 parts2 i]
            compare_loop.simps [of parts2 parts1 i] js_gt_def Let_def)
    next
      case 2
      then show ?thesis using True T' js_lt_asym [OF 2]
        by (simp add: compare_loop.simps [of parts1 parts2 i]
            compare_loop.simps [of parts2 parts1 i] js_gt_def Let_def)
    next
      case 3
      then show ?thesis using True T' "1.IH" [OF True refl refl]
        by (simp add: compare_loop.simps [of parts1 parts2 i]
            compare_loop.simps [of parts2 parts1 i] js_gt_def Let_def)
    qed
  qed
qed

lemma compare_loop_same: "compare_loop parts parts i = 0"
proof (induction "length parts - i" arbitrary: i)
  case 0
  then show ?case by (simp add: compare_loop.simps [of parts parts i])
next
  case (Suc n)
  then have "compare_loop parts parts (i + 1) = 0" by simp
  then show ?case
    by (simp add: compare_loop.simps [of parts parts i] js_gt_def js_lt_irrefl Let_def)
qed

lemma lex_compare_unfold:
  "lex_compare ps qs = step (head_or_zero ps) (head_or_zero qs) (lex_compare (tl ps) (tl qs))"
  by (cases ps; cases qs) (simp_all add: step_def head_or_zero_def js_lt_irrefl)

lemma part_or_zero_drop: "part_or_zero ps i = head_or_zero (drop i ps)"
proof (cases "i < length ps")
  case True
  then show ?thesis
    by (simp add: part_or_zero_def head_or_zero_def Cons_nth_drop_Suc [symmetric])
next
  case False
  then show ?thesis by (simp add: part_or_zero_def head_or_zero_def)
qed

text \<open>The loop with its index computes the recursive comparison of the remaining parts.\<close>

lemma compare_loop_lex: "compare_loop ps qs i = lex_compare (drop i ps) (drop i qs)"
proof (induction ps qs i rule: compare_loop.induct)
  case (1 ps qs i)
  show ?case
  proof (cases "i < max (length ps) (length qs)")
    case False
    then show ?thesis by (simp add: compare_loop.simps [of ps qs i])
  next
    case True
    have unf: "lex_compare (drop i ps) (drop i qs) =
        step (part_or_zero ps i) (part_or_zero qs i)
          (lex_compare (drop (i + 1) ps) (drop (i + 1) qs))"
      by (subst lex_compare_unfold) (simp add: part_or_zero_drop drop_Suc tl_drop)
    show ?thesis
    proof (cases "js_lt (part_or_zero ps i) (part_or_zero qs i)
        \<or> js_lt (part_or_zero qs i) (part_or_zero ps i)")
      case True
      with \<open>i < max (length ps) (length qs)\<close> show ?thesis
        by (auto simp: compare_loop.simps [of ps qs i] unf step_def js_gt_def Let_def
            dest: js_lt_asym)
    next
      case False
      with \<open>i < max (length ps) (length qs)\<close>
        "1.IH" [OF \<open>i < max (length ps) (length qs)\<close> refl refl]
      show ?thesis
        by (simp add: compare_loop.simps [of ps qs i] unf step_def js_gt_def Let_def)
    qed
  qed
qed

lemma step_trans:
  assumes "a \<noteq> NaN" "b \<noteq> NaN" "c \<noteq> NaN"
    and "0 \<le> step a b r1" "0 \<le> step b c r2"
    and "0 \<le> r1 \<Longrightarrow> 0 \<le> r2 \<Longrightarrow> 0 \<le> r3"
  shows "0 \<le> step a c r3"
proof -
  from assms(4) have ab: "\<not> js_lt a b" by (auto simp: step_def split: if_splits)
  from assms(5) have bc: "\<not> js_lt b c" by (auto simp: step_def split: if_splits)
  show ?thesis
  proof (cases "js_lt b a")
    case True
    have "js_lt c a"
    proof (cases "js_lt c b")
      case True
      with \<open>js_lt b a\<close> show ?thesis by (rule js_lt_trans [rotated])
    next
      case False
      with bc assms(2,3) have "b = c" by (auto dest: js_lt_total)
      with \<open>js_lt b a\<close> show ?thesis by simp
    qed
    then show ?thesis by (auto simp: step_def dest: js_lt_asym)
  next
    case False
    with ab assms(1,2) have eq: "a = b" by (auto dest: js_lt_total)
    show ?thesis
    proof (cases "js_lt c b")
      case True
      with eq show ?thesis by (auto simp: step_def dest: js_lt_asym)
    next
      case False
      with bc assms(2,3) have "b = c" by (auto dest: js_lt_total)
      with eq assms(4,5,6) show ?thesis by (simp add: step_def js_lt_irrefl)
    qed
  qed
qed

lemma lex_compare_trans:
  "0 \<le> lex_compare ps qs \<Longrightarrow> 0 \<le> lex_compare qs rs \<Longrightarrow> 0 \<le> lex_compare ps rs"
proof (induction "length ps + length qs + length rs" arbitrary: ps qs rs rule: less_induct)
  case less
  show ?case
  proof (cases "ps = [] \<and> qs = [] \<and> rs = []")
    case True
    then show ?thesis by simp
  next
    case False
    then have "length (tl ps) + length (tl qs) + length (tl rs)
        < length ps + length qs + length rs"
      by (cases ps; cases qs; cases rs) auto
    note IH = less.hyps [OF this]
    from less.prems(1)
    have 1: "0 \<le> step (head_or_zero ps) (head_or_zero qs) (lex_compare (tl ps) (tl qs))"
      by (subst (asm) lex_compare_unfold)
    from less.prems(2)
    have 2: "0 \<le> step (head_or_zero qs) (head_or_zero rs) (lex_compare (tl qs) (tl rs))"
      by (subst (asm) lex_compare_unfold)
    have "0 \<le> step (head_or_zero ps) (head_or_zero rs) (lex_compare (tl ps) (tl rs))"
      by (rule step_trans [OF head_or_zero_not_NaN head_or_zero_not_NaN
            head_or_zero_not_NaN 1 2]) (rule IH)
    then show ?thesis by (subst lex_compare_unfold)
  qed
qed

section \<open>The registry comparator is a total preorder\<close>

lemma registry_compareVersions_lex:
  "registry_compareVersions a b = lex_compare (registry_parts a) (registry_parts b)"
  by (simp add: registry_compareVersions_def compare_loop_lex)

lemma analyzer_compareVersions_lex:
  "analyzer_compareVersions a b = lex_compare (analyzer_parts a) (analyzer_parts b)"
  by (simp add: analyzer_compareVersions_def compare_loop_lex)

lemma registry_compareVersions_flip:
  "registry_compareVersions b a = - registry_compareVersions a b"
  by (simp add: registry_compareVersions_def compare_loop_flip [of "registry_parts a"])

lemma registry_compareVersions_trans:
  "0 \<le> registry_compareVersions a b \<Longrightarrow> 0 \<le> registry_compareVersions b c
   \<Longrightarrow> 0 \<le> registry_compareVersions a c"
  by (simp add: registry_compareVersions_lex lex_compare_trans [of _ "registry_parts b"])

section \<open>Sorting\<close>

lemma set_sort_insert: "set (sort_insert a bs) = insert a (set bs)"
  by (induction bs) auto

lemma set_sortVersionsDescending: "set (sortVersionsDescending vs) = set vs"
  by (induction vs) (simp_all add: sortVersionsDescending_def set_sort_insert)

lemma length_sort_insert: "length (sort_insert a bs) = Suc (length bs)"
  by (induction bs) auto

lemma length_sortVersionsDescending: "length (sortVersionsDescending vs) = length vs"
  by (induction vs) (simp_all add: sortVersionsDescending_def length_sort_insert)

lemma sortVersionsDescending_Nil: "sortVersionsDescending vs = [] \<longleftrightarrow> vs = []"
  using length_sortVersionsDescending [of vs] by (metis length_0_conv)

lemma descending_sort_insert:
  "descending bs \<Longrightarrow> descending (sort_insert a bs)"
proof (induction bs)
  case Nil
  then show ?case by (simp add: descending_def)
next
  case (Cons b bs)
  show ?case
  proof (cases "registry_compareVersions b a \<le> 0")
    case True
    then have ab: "0 \<le> registry_compareVersions a b"
      using registry_compareVersions_flip [of a b] by simp
    have "\<forall>x\<in>set bs. 0 \<le> registry_compareVersions a x"
      using Cons.prems ab by (auto simp: descending_def intro: registry_compareVersions_trans)
    with True ab Cons.prems show ?thesis by (simp add: descending_def)
  next
    case False
    then have ba: "0 \<le> registry_compareVersions b a" by simp
    from Cons.prems have "descending bs" by (simp add: descending_def)
    then have "descending (sort_insert a bs)" by (rule Cons.IH)
    with False ba Cons.prems show ?thesis
      by (auto simp: descending_def set_sort_insert)
  qed
qed

lemma descending_sortVersionsDescending: "descending (sortVersionsDescending vs)"
  by (induction vs)
    (simp_all add: sortVersionsDescending_def descending_sort_insert, simp add: descending_def)

lemma hd_sortVersionsDescending:
  assumes "vs \<noteq> []"
  shows "hd (sortVersionsDescending vs) \<in> set vs"
    and "v \<in> set vs \<Longrightarrow> 0 \<le> registry_compareVersions (hd (sortVersionsDescending vs)) v"
proof -
  from assms obtain x xs where eq: "sortVersionsDescending vs = x # xs"
    using sortVersionsDescending_Nil [of vs] by (cases "sortVersionsDescending vs") auto
  have sets: "set vs = insert x (set xs)"
    using set_sortVersionsDescending [of vs] by (simp only: eq list.set)
  show "hd (sortVersionsDescending vs) \<in> set vs"
    by (simp only: eq sets list.sel insertI1)
  assume "v \<in> set vs"
  then have v: "v = x \<or> v \<in> set xs" by (simp only: sets insert_iff)
  have "descending (x # xs)" using descending_sortVersionsDescending [of vs] by (simp only: eq)
  then have "\<forall>y\<in>set xs. 0 \<le> registry_compareVersions x y" by (simp add: descending_def)
  moreover have "0 \<le> registry_compareVersions x x"
    by (simp add: registry_compareVersions_def compare_loop_same)
  ultimately have "0 \<le> registry_compareVersions x v" using v by blast
  then show "0 \<le> registry_compareVersions (hd (sortVersionsDescending vs)) v"
    by (simp only: eq list.sel)
qed

section \<open>Decimal numerals\<close>

text \<open>\<^verbatim>\<open>parseInt\<close> reads the decimal numeral of a natural number back.\<close>

lemma of_char_digit_char: "d < 10 \<Longrightarrow> (of_char (digit_char d) :: nat) = 48 + d"
  by (simp add: digit_char_def)

lemma isDigit_digit_char: "d < 10 \<Longrightarrow> isDigit (digit_char d)"
  by (simp add: isDigit_def of_char_digit_char)

lemma digitVal_digit_char: "d < 10 \<Longrightarrow> digitVal (digit_char d) = d"
  by (simp add: digitVal_def of_char_digit_char)

lemma digits_value_snoc: "digits_value (ds @ [c]) = 10 * digits_value ds + digitVal c"
  by (simp add: digits_value_def)

lemma decimal_digits:
  "list_all isDigit (decimal n) \<and> decimal n \<noteq> [] \<and> digits_value (decimal n) = n"
proof (induction n rule: decimal.induct)
  case (1 n)
  show ?case
  proof (cases "n < 10")
    case True
    then show ?thesis
      by (simp add: decimal.simps [of n] isDigit_digit_char digitVal_digit_char digits_value_def)
  next
    case False
    with 1 show ?thesis
      by (simp add: decimal.simps [of n] isDigit_digit_char digitVal_digit_char
          digits_value_snoc)
  qed
qed

lemma isDigit_plain:
  "isDigit c \<Longrightarrow> \<not> isWhiteSpace c \<and> c \<noteq> CHR ''+'' \<and> c \<noteq> CHR ''-''"
  by (auto simp: isDigit_def isWhiteSpace_def)

lemma js_parseInt_decimal: "js_parseInt (decimal n) = to_double (of_nat n)"
proof -
  obtain c cs where d: "decimal n = c # cs"
    using decimal_digits [of n] by (cases "decimal n") auto
  with decimal_digits [of n] have c: "isDigit c" and cs: "list_all isDigit cs" by simp_all
  from cs have tw: "takeWhile isDigit cs = cs" by (simp add: list_all_iff)
  from decimal_digits [of n] have v: "digits_value (c # cs) = n" by (simp add: d)
  show ?thesis
    using isDigit_plain [OF c] c
    by (simp add: js_parseInt_def d tw v Let_def)
qed

section \<open>The two comparators\<close>

lemma compareVersions_examples:
  "registry_compareVersions ''17.0.0'' ''9.0.0'' = 1"
  "registry_compareVersions ''1.2'' ''1.2.0'' = 0"
  "analyzer_compareVersions ''17.0.0'' ''9.0.0'' = 1"
  "analyzer_compareVersions ''1.2'' ''1.2.0'' = 0"
  by code_simp+

text \<open>
  Claim C10. For all version strings \<open>a\<close> and \<open>b\<close>, \<open>compare(a, b) = -compare(b, a)\<close>
  and \<open>compare(a, a) = 0\<close>, for the comparator of \<^verbatim>\<open>NpmRegistryService\<close> and for the
  comparator of \<^verbatim>\<open>DependencyAnalyzerService\<close>.
\<close>

theorem compareVersions_antisymmetric_reflexive:
  "registry_compareVersions a b = - registry_compareVersions b a
   \<and> registry_compareVersions a a = 0
   \<and> analyzer_compareVersions a b = - analyzer_compareVersions b a
   \<and> analyzer_compareVersions a a = 0"
  by (simp add: registry_compareVersions_def analyzer_compareVersions_def
      compare_loop_flip [of "registry_parts b" "registry_parts a"]
      compare_loop_flip [of "analyzer_parts b" "analyzer_parts a"] compare_loop_same)

lemma or_zero_idem: "or_zero (or_zero x) = or_zero x"
  by (simp add: or_zero_def)

lemma head_or_zero_map: "head_or_zero (map or_zero ps) = head_or_zero ps"
  by (cases ps) (simp_all add: head_or_zero_def or_zero_idem)

lemma lex_compare_or_zero:
  "lex_compare (map or_zero ps) (map or_zero qs) = lex_compare ps qs"
proof (induction "length ps + length qs" arbitrary: ps qs rule: less_induct)
  case less
  show ?case
  proof (cases "ps = [] \<and> qs = []")
    case True
    then show ?thesis by simp
  next
    case False
    then have "length (tl ps) + length (tl qs) < length ps + length qs"
      by (cases ps; cases qs) auto
    from less.hyps [OF this] show ?thesis
      by (subst lex_compare_unfold, subst (2) lex_compare_unfold)
        (simp add: head_or_zero_map map_tl)
  qed
qed

lemma digits_no_space: "list_all isDigit p \<Longrightarrow> dropWhile isWhiteSpace p = p"
  by (cases p) (auto dest: isDigit_plain)

lemma js_trim_digits: "list_all isDigit p \<Longrightarrow> js_trim p = p"
proof -
  assume d: "list_all isDigit p"
  then have "list_all isDigit (rev p)" by (simp add: list_all_iff)
  then have "dropWhile isWhiteSpace (rev p) = rev p" by (rule digits_no_space)
  with d show ?thesis by (simp add: js_trim_def digits_no_space)
qed

lemma isDigit_hexVal: "isDigit c \<Longrightarrow> hexVal c = digitVal c"
  by (simp add: isDigit_def hexVal_def digitVal_def Let_def)

lemma isDigit_not_letter:
  "isDigit c \<Longrightarrow> c \<notin> {CHR ''x'', CHR ''X'', CHR ''o'', CHR ''O'', CHR ''b'', CHR ''B'', CHR ''I''}"
  by (auto simp: isDigit_def)

lemma non_decimal_literal_digits:
  assumes "list_all isDigit p"
  shows "non_decimal_literal p = None"
proof (cases p)
  case Nil
  then show ?thesis by (simp add: non_decimal_literal_def)
next
  case p: (Cons c0 r)
  show ?thesis
  proof (cases r)
    case Nil
    with p show ?thesis by (simp add: non_decimal_literal_def)
  next
    case (Cons c1 ds)
    with assms p have "isDigit c1" by simp
    from isDigit_not_letter [OF this] show ?thesis
      by (simp add: non_decimal_literal_def p Cons)
  qed
qed

lemma js_Number_digits:
  assumes "list_all isDigit p"
  shows "or_zero (js_Number p) = or_zero (js_parseInt p)"
proof (cases p)
  case Nil
  then show ?thesis by (simp add: js_Number_def js_parseInt_def js_trim_def or_zero_def)
next
  case (Cons c cs)
  with assms have c: "isDigit c" and cs: "list_all isDigit cs" by simp_all
  from cs have tw: "takeWhile isDigit cs = cs" "dropWhile isDigit cs = []"
    by (simp_all add: list_all_iff)
  have inf: "c \<noteq> CHR ''I''" using isDigit_not_letter [OF c] by simp
  note plain = isDigit_plain [OF c]
  have trim: "js_trim (c # cs) = c # cs" using js_trim_digits [OF assms] by (simp only: Cons)
  have nd: "non_decimal_literal (c # cs) = None"
    using non_decimal_literal_digits [OF assms] by (simp only: Cons)
  have ud: "unsigned_decimal_literal (c # cs) = Some (of_nat (digits_value (c # cs)))"
    using c by (simp add: unsigned_decimal_literal_def tw exponent_part_def Let_def)
  have "js_Number (c # cs) = to_double (of_nat (digits_value (c # cs)))"
    unfolding js_Number_def Let_def trim nd using plain inf by (simp add: ud)
  moreover have "js_parseInt (c # cs) = to_double (of_nat (digits_value (c # cs)))"
    using plain c by (simp add: js_parseInt_def tw Let_def)
  ultimately show ?thesis by (simp only: Cons)
qed

text \<open>
  On version strings whose components consist of decimal digits only the two comparators
  agree.
\<close>

lemma comparators_agree_on_digits:
  assumes "list_all (list_all isDigit) (js_split ''.'' a)"
    and "list_all (list_all isDigit) (js_split ''.'' b)"
  shows "analyzer_compareVersions a b = registry_compareVersions a b"
proof -
  have parts: "map or_zero (analyzer_parts v) = registry_parts v"
    if "list_all (list_all isDigit) (js_split ''.'' v)" for v
    using that by (simp add: analyzer_parts_def registry_parts_def list_all_iff js_Number_digits)
  have "analyzer_compareVersions a b
      = lex_compare (map or_zero (analyzer_parts a)) (map or_zero (analyzer_parts b))"
    by (simp only: analyzer_compareVersions_lex lex_compare_or_zero)
  then show ?thesis
    by (simp only: parts [OF assms(1)] parts [OF assms(2)] registry_compareVersions_lex)
qed

text \<open>
  Claim C7. The two comparators are claimed to return the same value on every pair of
  version strings. They do not: on \<^verbatim>\<open>17.0.5-rc.1\<close> and \<^verbatim>\<open>17.0.6-rc.0\<close> the registry
  comparator reads the third components as 5 and 6 and returns \<open>-1\<close>, while the analyzer
  comparator converts both with \<^verbatim>\<open>Number\<close> to NaN, hence 0, goes on to the fourth
  components and returns \<open>1\<close>.
\<close>

theorem comparators_disagree:
  "registry_compareVersions ''17.0.5-rc.1'' ''17.0.6-rc.0'' = - 1
   \<and> analyzer_compareVersions ''17.0.5-rc.1'' ''17.0.6-rc.0'' = 1"
  by code_simp

lemma or_zero_Fin: "or_zero (Fin x) = Fin x"
  by (simp add: or_zero_def)

lemma parseInt_plain_component:
  assumes "plain_component p"
  shows "or_zero (js_parseInt p) = Fin (of_int (spec_component p))"
proof -
  from assms have drop: "dropWhile isWhiteSpace p = p"
    by (cases p) (simp_all add: plain_component_def)
  from assms have sign: "(case p of [] \<Rightarrow> False | c # _ \<Rightarrow> c = CHR ''-'') = False"
    "(case p of [] \<Rightarrow> [] | c # cs \<Rightarrow> if c = CHR ''+'' \<or> c = CHR ''-'' then cs else p) = p"
    by (cases p; simp add: plain_component_def)+
  from assms have small: "digits_value (takeWhile isDigit p) < 2 ^ 53"
    by (simp add: plain_component_def)
  show ?thesis
  proof (cases "takeWhile isDigit p = []")
    case True
    then show ?thesis
      by (simp add: js_parseInt_def drop sign Let_def or_zero_def spec_component_def
          digits_value_def)
  next
    case False
    have "\<bar>(of_nat (digits_value (takeWhile isDigit p)) :: rat)\<bar> < 2 ^ 53"
      using small by (metis abs_of_nat of_nat_less_numeral_power_cancel_iff)
    then have "to_double (of_nat (digits_value (takeWhile isDigit p)))
        = Fin (of_nat (digits_value (takeWhile isDigit p)))"
      by (simp add: to_double_def)
    with False show ?thesis
      by (simp add: js_parseInt_def drop sign Let_def or_zero_Fin spec_component_def)
  qed
qed

lemma lex_compare_ints:
  "lex_compare (map (\<lambda>i. Fin (of_int i)) xs) (map (\<lambda>i. Fin (of_int i)) ys)
     = spec_compare_parts xs ys"
  by (induction xs ys rule: spec_compare_parts.induct)
    (simp_all add: step_def head_or_zero_def or_zero_Fin)

text \<open>
  On version strings with plain components the registry comparator is the comparator of
  the specification.
\<close>

lemma registry_compareVersions_spec:
  assumes "list_all plain_component (js_split ''.'' a)"
    and "list_all plain_component (js_split ''.'' b)"
  shows "registry_compareVersions a b = spec_compare a b"
proof -
  have parts: "registry_parts v
      = map (\<lambda>i. Fin (of_int i)) (map spec_component (js_split ''.'' v))"
    if "list_all plain_component (js_split ''.'' v)" for v
    using that by (simp add: registry_parts_def list_all_iff parseInt_plain_component)
  show ?thesis
    unfolding registry_compareVersions_lex parts [OF assms(1)] parts [OF assms(2)]
      lex_compare_ints spec_compare_def spec_compare_with_def
    by (rule refl)
qed

text \<open>
  Claim C6. The comparator is claimed to convert every component to an integer and to let
  the first unequal component decide, in both services. The analyzer comparator does
  not: on \<^verbatim>\<open>17.0.5-rc.1\<close> and \<^verbatim>\<open>17.0.6-rc.0\<close> the first unequal components are 5 and
  6, yet it returns \<open>1\<close>; and it reads the component \<^verbatim>\<open>1e1\<close> as the number 10, which
  is 1 or 0 in either reading of the conversion to an integer.
\<close>

theorem analyzer_compareVersions_not_spec:
  "spec_compare ''17.0.5-rc.1'' ''17.0.6-rc.0'' = - 1
   \<and> analyzer_compareVersions ''17.0.5-rc.1'' ''17.0.6-rc.0'' = 1
   \<and> spec_compare ''1e1'' ''5'' = - 1
   \<and> spec_compare_with spec_component_strict ''1e1'' ''5'' = - 1
   \<and> analyzer_compareVersions ''1e1'' ''5'' = 1"
  by code_simp

section \<open>The peer constraint reader\<close>

lemma js_eq_imp_ge: "js_eq a b \<Longrightarrow> js_ge a b"
  by (auto simp: js_eq_def js_ge_def js_lt_irrefl)

lemma satisfies_loop_list_ex:
  "satisfies_loop targetMajor alts = list_ex (alternative_satisfies targetMajor) alts"
  by (induction alts)
    (auto simp: alternative_satisfies_def Let_def dest: js_eq_imp_ge split: option.splits)

text \<open>
  Claim C5. For every target major and constraint string, \<^verbatim>\<open>versionSatisfiesPeerDep\<close>
  splits the string on \<^verbatim>\<open>||\<close>, trims each alternative and returns true exactly when
  some alternative satisfies: it has a first run of digits \<open>m\<close> and either contains
  \<^verbatim>\<open>>=\<close> with the target at least \<open>m\<close>, or contains \<^verbatim>\<open>^\<close> or \<^verbatim>\<open>~\<close> with the target
  equal to \<open>m\<close>. An alternative without digits or without these markers never
  satisfies. For \<^verbatim>\<open>^17.0.0 || ^18.0.0\<close> the target 18 satisfies and the target 16 does
  not.
\<close>

theorem versionSatisfiesPeerDep_alternatives:
  "versionSatisfiesPeerDep targetMajor peerDepConstraint
     = list_ex (alternative_satisfies targetMajor)
         (map js_trim (js_split ''||'' peerDepConstraint))
   \<and> versionSatisfiesPeerDep (Fin 18) ''^17.0.0 || ^18.0.0''
   \<and> \<not> versionSatisfiesPeerDep (Fin 16) ''^17.0.0 || ^18.0.0''"
proof -
  have "versionSatisfiesPeerDep (Fin 18) ''^17.0.0 || ^18.0.0''" by code_simp
  moreover have "\<not> versionSatisfiesPeerDep (Fin 16) ''^17.0.0 || ^18.0.0''" by code_simp
  ultimately show ?thesis
    by (simp add: versionSatisfiesPeerDep_def satisfies_loop_list_ex)
qed

section \<open>Framework-core resolution\<close>

text \<open>
  Claim C2. For every version list, target and cleaned current version,
  \<^verbatim>\<open>findBestAngularVersion\<close> keeps the versions whose major component equals the target
  major; unless the current version is a pre-release it narrows them to the stable ones
  when there are any; if versions remain it returns the head of their descending sort,
  which is one of them and compares at least as high as each of them; otherwise it
  returns the current version when the current major exceeds the target major, and
  otherwise the target followed by \<^verbatim>\<open>.0.0\<close>. The target major of the decimal numeral
  of an integer \<open>n\<close> is the number \<open>n\<close>. For the versions 16.2.0, 17.0.0, 17.1.0 and
  18.0.0-next.0, target 17 and current 16.2.0 it returns 17.1.0.
\<close>

theorem findBestAngularVersion_algorithm:
  "(let targetMajor = js_parseInt target;
        T = filter (\<lambda>v. js_eq (major_of v) targetMajor) vs;
        stable = filter (\<lambda>v. \<not> isPreReleaseVersion v) T;
        S = (if \<not> isPreReleaseVersion current \<and> stable \<noteq> [] then stable else T);
        r = findBestAngularVersion vs target current
    in (S \<noteq> [] \<longrightarrow>
          r = hd (sortVersionsDescending S) \<and> r \<in> set S
          \<and> (\<forall>v\<in>set S. 0 \<le> registry_compareVersions r v))
       \<and> (S = [] \<and> js_gt (major_of current) targetMajor \<longrightarrow> r = current)
       \<and> (S = [] \<and> \<not> js_gt (major_of current) targetMajor \<longrightarrow> r = target @ ''.0.0''))
   \<and> js_parseInt (decimal n) = to_double (of_nat n)
   \<and> findBestAngularVersion [''16.2.0'', ''17.0.0'', ''17.1.0'', ''18.0.0-next.0'']
         ''17'' ''16.2.0'' = ''17.1.0''"
proof -
  define T where "T = filter (\<lambda>v. js_eq (major_of v) (js_parseInt target)) vs"
  define stable where "stable = filter (\<lambda>v. \<not> isPreReleaseVersion v) T"
  define S where "S = (if \<not> isPreReleaseVersion current \<and> stable \<noteq> [] then stable else T)"
  define r where "r = findBestAngularVersion vs target current"
  have r_eq: "r = (if S \<noteq> [] then hd (sortVersionsDescending S)
                   else if js_gt (major_of current) (js_parseInt target) then current
                   else target @ ''.0.0'')"
    unfolding r_def S_def stable_def T_def findBestAngularVersion_def Let_def by (rule refl)
  have 1: "S \<noteq> [] \<longrightarrow> r = hd (sortVersionsDescending S) \<and> r \<in> set S
      \<and> (\<forall>v\<in>set S. 0 \<le> registry_compareVersions r v)"
    using hd_sortVersionsDescending [of S] by (simp add: r_eq)
  have 2: "S = [] \<and> js_gt (major_of current) (js_parseInt target) \<longrightarrow> r = current"
    by (simp add: r_eq)
  have 3: "S = [] \<and> \<not> js_gt (major_of current) (js_parseInt target) \<longrightarrow> r = target @ ''.0.0''"
    by (simp add: r_eq)
  have ex: "findBestAngularVersion [''16.2.0'', ''17.0.0'', ''17.1.0'', ''18.0.0-next.0'']
         ''17'' ''16.2.0'' = ''17.1.0''"
    by code_simp
  from 1 2 3 ex js_parseInt_decimal [of n] show ?thesis
    unfolding Let_def r_def S_def stable_def T_def by blast
qed

theorem findBestAngularVersion_algorithm_witness:
  "findBestAngularVersion [''16.2.0'', ''17.0.0'', ''17.1.0'', ''18.0.0-next.0''] ''17'' ''16.2.0''
     \<in> set [''17.0.0'', ''17.1.0'']
   \<and> 0 \<le> registry_compareVersions
         (findBestAngularVersion [''16.2.0'', ''17.0.0'', ''17.1.0'', ''18.0.0-next.0'']
            ''17'' ''16.2.0'') ''17.0.0''
   \<and> findBestAngularVersion [] ''17'' ''18.0.0'' = ''18.0.0''
   \<and> findBestAngularVersion [] ''17'' ''16.2.0'' = ''17.0.0''"
proof -
  have T: "filter (\<lambda>v. js_eq (major_of v) (js_parseInt ''17''))
      [''16.2.0'', ''17.0.0'', ''17.1.0'', ''18.0.0-next.0''] = [''17.0.0'', ''17.1.0'']"
    by code_simp
  have st: "filter (\<lambda>v. \<not> isPreReleaseVersion v) [''17.0.0'', ''17.1.0'']
      = [''17.0.0'', ''17.1.0'']"
    by code_simp
  have gt: "js_gt (major_of ''18.0.0'') (js_parseInt ''17'')" by code_simp
  have ngt: "\<not> js_gt (major_of ''16.2.0'') (js_parseInt ''17'')" by code_simp
  have a: "findBestAngularVersion [''16.2.0'', ''17.0.0'', ''17.1.0'', ''18.0.0-next.0''] ''17'' ''16.2.0''
     \<in> set [''17.0.0'', ''17.1.0'']
   \<and> 0 \<le> registry_compareVersions
         (findBestAngularVersion [''16.2.0'', ''17.0.0'', ''17.1.0'', ''18.0.0-next.0'']
            ''17'' ''16.2.0'') ''17.0.0''"
    using findBestAngularVersion_algorithm
      [where vs = "[''16.2.0'', ''17.0.0'', ''17.1.0'', ''18.0.0-next.0'']"
        and target = "''17''" and n = 17 and current = "''16.2.0''"]
    unfolding Let_def T st by auto
  have b: "findBestAngularVersion [] ''17'' ''18.0.0'' = ''18.0.0''"
    using findBestAngularVersion_algorithm
      [where vs = "[]" and target = "''17''" and n = 17 and current = "''18.0.0''"] gt
    unfolding Let_def by simp
  have c: "findBestAngularVersion [] ''17'' ''16.2.0'' = ''17.0.0''"
    using findBestAngularVersion_algorithm
      [where vs = "[]" and target = "''17''" and n = 17 and current = "''16.2.0''"] ngt
    unfolding Let_def by simp
  from a b c show ?thesis by blast
qed

section \<open>Ecosystem resolution\<close>

lemma compatible_loop_filter:
  "compatible_loop targetMajor includePreRelease entries
     = map fst (filter (pushes_version targetMajor includePreRelease) entries)"
  by (induction entries) simp_all

lemma pushes_version_candidate:
  "pushes_version targetMajor includePreRelease entry
     = candidate targetMajor includePreRelease entry"
  by (auto simp: pushes_version_def candidate_def core_peer_def Let_def split: option.splits)

lemma findVersionsCompatibleWithAngular_candidates:
  "findVersionsCompatibleWithAngular info target includePreRelease
     = map fst (filter (candidate (js_parseInt target) includePreRelease) (versions info))"
  by (simp add: findVersionsCompatibleWithAngular_def compatible_loop_filter
      pushes_version_candidate [abs_def])

lemma find_None_set: "find P xs = None \<longleftrightarrow> (\<forall>x\<in>set xs. \<not> P x)"
  by (induction xs) simp_all

lemma getBestVersion_ecosystem:
  assumes "reg nm = Inr info" "\<not> is_core_name nm"
  shows "getBestVersion reg nm target cur =
     Some (case find (\<lambda>version. 0 \<le> registry_compareVersions version (cleanVersion cur))
             (sortVersionsDescending
                (findVersionsCompatibleWithAngular info target
                   (isPreReleaseVersion (cleanVersion cur)))) of
             Some version \<Rightarrow> version
           | None \<Rightarrow> fallback_version info (cleanVersion cur))"
  using assms by (simp add: getBestVersion_def getPackageInfo_def bestVersionOfInfo_def Let_def)

lemma getBestVersion_fallback:
  assumes "reg nm = Inr info" "\<not> is_core_name nm"
    and "\<forall>v\<in>set (findVersionsCompatibleWithAngular info target
              (isPreReleaseVersion (cleanVersion cur))).
           registry_compareVersions v (cleanVersion cur) < 0"
  shows "getBestVersion reg nm target cur = Some (fallback_version info (cleanVersion cur))"
proof -
  let ?cands = "findVersionsCompatibleWithAngular info target
      (isPreReleaseVersion (cleanVersion cur))"
  from assms(3)
  have "\<forall>v\<in>set (sortVersionsDescending ?cands).
      \<not> 0 \<le> registry_compareVersions v (cleanVersion cur)"
    by (auto simp: set_sortVersionsDescending)
  then have "find (\<lambda>version. 0 \<le> registry_compareVersions version (cleanVersion cur))
      (sortVersionsDescending ?cands) = None"
    by (simp add: find_None_set)
  then show ?thesis
    by (simp add: getBestVersion_ecosystem [of reg nm info, OF assms(1,2)])
qed

text \<open>
  Claim C3, as amended. For every package that is not framework-core, the candidate
  list holds, in registry order, exactly the available versions that are not
  pre-releases (any version when the current version is itself a pre-release) and that
  declare no constraint on the framework-core package, or an empty one, or one that
  \<^verbatim>\<open>versionSatisfiesPeerDep\<close> confirms for the target major. The sorted candidate list
  is a descending rearrangement of the candidates, and the resolver returns its first
  version that compares greater-or-equal to the cleaned current version, when there is
  one.
\<close>

theorem ecosystem_candidates_and_selection:
  "findVersionsCompatibleWithAngular info target includePreRelease
     = map fst (filter (candidate (js_parseInt target) includePreRelease) (versions info))
   \<and> descending (sortVersionsDescending
        (findVersionsCompatibleWithAngular info target includePreRelease))
   \<and> set (sortVersionsDescending (findVersionsCompatibleWithAngular info target includePreRelease))
       = set (findVersionsCompatibleWithAngular info target includePreRelease)
   \<and> (reg nm = Inr info \<and> \<not> is_core_name nm
       \<and> find (\<lambda>u. 0 \<le> registry_compareVersions u (cleanVersion cur))
            (sortVersionsDescending
               (findVersionsCompatibleWithAngular info target
                  (isPreReleaseVersion (cleanVersion cur)))) = Some v
      \<longrightarrow> getBestVersion reg nm target cur = Some v)"
  by (simp add: findVersionsCompatibleWithAngular_candidates [symmetric]
      descending_sortVersionsDescending set_sortVersionsDescending
      getBestVersion_ecosystem [of reg nm info])

text \<open>
  The amended claim C3 at the package \<^verbatim>\<open>ngx-lib\<close> with target 17 and current
  \<^verbatim>\<open>^1.5.0\<close>.
\<close>

theorem ecosystem_candidates_and_selection_witness:
  "example_registry ''ngx-lib'' = Inr info_ngx \<and> \<not> is_core_name ''ngx-lib''
   \<and> find (\<lambda>u. 0 \<le> registry_compareVersions u (cleanVersion ''^1.5.0''))
        (sortVersionsDescending
           (findVersionsCompatibleWithAngular info_ngx ''17''
              (isPreReleaseVersion (cleanVersion ''^1.5.0'')))) = Some ''2.0.0''
   \<and> getBestVersion example_registry ''ngx-lib'' ''17'' ''^1.5.0'' = Some ''2.0.0''"
proof -
  have 1: "example_registry ''ngx-lib'' = Inr info_ngx" by (simp add: example_registry_def)
  have 2: "\<not> is_core_name ''ngx-lib''" by code_simp
  have 3: "find (\<lambda>u. 0 \<le> registry_compareVersions u (cleanVersion ''^1.5.0''))
        (sortVersionsDescending
           (findVersionsCompatibleWithAngular info_ngx ''17''
              (isPreReleaseVersion (cleanVersion ''^1.5.0'')))) = Some ''2.0.0''"
    by code_simp
  from ecosystem_candidates_and_selection
    [where reg = example_registry and nm = "''ngx-lib''" and info = info_ngx
      and target = "''17''" and cur = "''^1.5.0''" and v = "''2.0.0''"] 1 2 3
  have "getBestVersion example_registry ''ngx-lib'' ''17'' ''^1.5.0'' = Some ''2.0.0''"
    by blast
  with 1 2 3 show ?thesis by blast
qed

text \<open>
  Claim C3 as stated fails: a version whose constraint on the framework-core package is
  the empty string declares a constraint that the evaluator does not confirm, and it is
  a candidate all the same.
\<close>

theorem empty_peer_constraint_counterexample:
  "findVersionsCompatibleWithAngular info_empty_peer ''17'' False
     \<noteq> map fst (filter (spec_candidate (js_parseInt ''17'') False) (versions info_empty_peer))"
  by code_simp

text \<open>
  Claim C4. For every package that is not framework-core and has no candidate that
  compares greater-or-equal to the cleaned current version, the resolver falls back to
  the \<^verbatim>\<open>latest\<close> tag of the registry (to the current version when the tag is missing
  or empty); when the tag is a pre-release and the current version is stable it takes
  the highest stable version among all available versions in its place, when there is
  one; and when the fallback still compares below the cleaned current version, the
  current version is returned.
\<close>

theorem ecosystem_fallback:
  assumes "reg nm = Inr info" "\<not> is_core_name nm"
    and "\<forall>v\<in>set (findVersionsCompatibleWithAngular info target
              (isPreReleaseVersion (cleanVersion cur))).
           registry_compareVersions v (cleanVersion cur) < 0"
  shows "(let clean = cleanVersion cur;
              tag = (case dist_tags_latest info of
                       None \<Rightarrow> clean
                     | Some l \<Rightarrow> if l = [] then clean else l);
              stable = filter (\<lambda>v. \<not> isPreReleaseVersion v) (map fst (versions info));
              fb = (if \<not> isPreReleaseVersion clean \<and> isPreReleaseVersion tag \<and> stable \<noteq> []
                    then hd (sortVersionsDescending stable) else tag)
          in getBestVersion reg nm target cur
               = Some (if 0 \<le> registry_compareVersions fb clean then fb else clean)
             \<and> (stable \<noteq> [] \<longrightarrow>
                   hd (sortVersionsDescending stable) \<in> set stable
                   \<and> (\<forall>v\<in>set stable.
                         0 \<le> registry_compareVersions (hd (sortVersionsDescending stable)) v)))"
  using hd_sortVersionsDescending
    [of "filter (\<lambda>v. \<not> isPreReleaseVersion v) (map fst (versions info))"]
  by (simp add: getBestVersion_fallback [of reg nm info, OF assms] fallback_version_def Let_def)

text \<open>
  Claim C4 at the package \<^verbatim>\<open>ngx-lib\<close> with target 17 and current \<^verbatim>\<open>^2.5.0\<close>: both
  candidates are below the current version and the \<^verbatim>\<open>latest\<close> tag is returned. At
  the package \<^verbatim>\<open>ngx-beta\<close>, whose \<^verbatim>\<open>latest\<close> tag is a pre-release, the highest stable
  version 2.0.0 takes the place of the tag and is below the current version, which is
  returned.
\<close>

theorem ecosystem_fallback_witness:
  "example_registry ''ngx-lib'' = Inr info_ngx \<and> \<not> is_core_name ''ngx-lib''
   \<and> findVersionsCompatibleWithAngular info_ngx ''17''
        (isPreReleaseVersion (cleanVersion ''^2.5.0'')) = [''1.0.0'', ''2.0.0'']
   \<and> registry_compareVersions ''1.0.0'' (cleanVersion ''^2.5.0'') < 0
   \<and> registry_compareVersions ''2.0.0'' (cleanVersion ''^2.5.0'') < 0
   \<and> getBestVersion example_registry ''ngx-lib'' ''17'' ''^2.5.0'' = Some ''3.0.0''
   \<and> example_registry ''ngx-beta'' = Inr info_beta \<and> \<not> is_core_name ''ngx-beta''
   \<and> findVersionsCompatibleWithAngular info_beta ''17''
        (isPreReleaseVersion (cleanVersion ''^2.5.0'')) = [''1.0.0'', ''2.0.0'']
   \<and> getBestVersion example_registry ''ngx-beta'' ''17'' ''^2.5.0'' = Some ''2.5.0''"
proof -
  have 1: "example_registry ''ngx-lib'' = Inr info_ngx" by (simp add: example_registry_def)
  have 2: "\<not> is_core_name ''ngx-lib''" by code_simp
  have 3: "findVersionsCompatibleWithAngular info_ngx ''17''
        (isPreReleaseVersion (cleanVersion ''^2.5.0'')) = [''1.0.0'', ''2.0.0'']"
    by code_simp
  have 4: "registry_compareVersions ''1.0.0'' (cleanVersion ''^2.5.0'') < 0" by code_simp
  have 5: "registry_compareVersions ''2.0.0'' (cleanVersion ''^2.5.0'') < 0" by code_simp
  have 6: "\<forall>v\<in>set (findVersionsCompatibleWithAngular info_ngx ''17''
              (isPreReleaseVersion (cleanVersion ''^2.5.0''))).
           registry_compareVersions v (cleanVersion ''^2.5.0'') < 0"
    using 4 5 by (simp add: 3)
  have 7: "(let clean = cleanVersion ''^2.5.0'';
              tag = (case dist_tags_latest info_ngx of
                       None \<Rightarrow> clean
                     | Some l \<Rightarrow> if l = [] then clean else l);
              stable = filter (\<lambda>v. \<not> isPreReleaseVersion v) (map fst (versions info_ngx));
              fb = (if \<not> isPreReleaseVersion clean \<and> isPreReleaseVersion tag \<and> stable \<noteq> []
                    then hd (sortVersionsDescending stable) else tag)
          in (if 0 \<le> registry_compareVersions fb clean then fb else clean)) = ''3.0.0''"
    by code_simp
  from ecosystem_fallback
    [where reg = example_registry and nm = "''ngx-lib''" and info = info_ngx, OF 1 2 6] 7
  have a: "getBestVersion example_registry ''ngx-lib'' ''17'' ''^2.5.0'' = Some ''3.0.0''"
    by (simp add: Let_def)
  have b1: "example_registry ''ngx-beta'' = Inr info_beta" by code_simp
  have b2: "\<not> is_core_name ''ngx-beta''" by code_simp
  have b3: "findVersionsCompatibleWithAngular info_beta ''17''
        (isPreReleaseVersion (cleanVersion ''^2.5.0'')) = [''1.0.0'', ''2.0.0'']"
    by code_simp
  have b6: "\<forall>v\<in>set (findVersionsCompatibleWithAngular info_beta ''17''
              (isPreReleaseVersion (cleanVersion ''^2.5.0''))).
           registry_compareVersions v (cleanVersion ''^2.5.0'') < 0"
    using 4 5 by (simp add: b3)
  have b7: "(let clean = cleanVersion ''^2.5.0'';
              tag = (case dist_tags_latest info_beta of
                       None \<Rightarrow> clean
                     | Some l \<Rightarrow> if l = [] then clean else l);
              stable = filter (\<lambda>v. \<not> isPreReleaseVersion v) (map fst (versions info_beta));
              fb = (if \<not> isPreReleaseVersion clean \<and> isPreReleaseVersion tag \<and> stable \<noteq> []
                    then hd (sortVersionsDescending stable) else tag)
          in (if 0 \<le> registry_compareVersions fb clean then fb else clean)) = ''2.5.0''"
    by code_simp
  from ecosystem_fallback
    [where reg = example_registry and nm = "''ngx-beta''" and info = info_beta, OF b1 b2 b6] b7
  have b: "getBestVersion example_registry ''ngx-beta'' ''17'' ''^2.5.0'' = Some ''2.5.0''"
    by (simp add: Let_def)
  from 1 2 3 4 5 a b1 b2 b3 b show ?thesis by blast
qed

section \<open>The analyzer and a registry that fails\<close>

lemma getBestVersion_unavailable:
  "reg nm = Inl e \<Longrightarrow> getBestVersion reg nm target cur = None"
  by (simp add: getBestVersion_def getPackageInfo_def)

lemma analyzeDependency_local:
  "reg' nm = reg nm \<Longrightarrow> analyzeDependency reg' nm c target = analyzeDependency reg nm c target"
  by (simp add: analyzeDependency_def getBestVersion_def getPackageInfo_def)

lemma analysis_analyze:
  "analysis (analyze reg pkg target)
     = map (\<lambda>(n, c). analyzeDependency reg n c target) (allDeps pkg)"
  by (simp add: analyze_def Let_def buildResult_def createEmptyResult_def)

lemma analyzer_compareVersions_same: "analyzer_compareVersions v v = 0"
  by (simp add: analyzer_compareVersions_def compare_loop_same)

lemma registry_compareVersions_same: "registry_compareVersions v v = 0"
  by (simp add: registry_compareVersions_def compare_loop_same)

lemma analyzeDependency_unavailable:
  assumes "reg nm = Inl e"
  shows "recommendedVersion (analyzeDependency reg nm c target) = cleanVersion c"
    and "currentVersion (analyzeDependency reg nm c target) = cleanVersion c"
    and "\<not> needsUpdate (analyzeDependency reg nm c target)"
  using getBestVersion_unavailable [of reg nm e, OF assms]
  by (simp_all add: analyzeDependency_def Let_def analyzer_compareVersions_same)

text \<open>
  Claim C8. When the lookup of a dependency fails, its entry recommends the cleaned
  current version and flags no update, and the analysis returns its result all the
  same: each entry of the batch is the analysis of its own dependency, and the entry of
  every other dependency is what it would be had this lookup succeeded.
\<close>

theorem registry_unavailable_fallback:
  assumes "reg nm = Inl e"
  shows "recommendedVersion (analyzeDependency reg nm c target) = cleanVersion c
   \<and> currentVersion (analyzeDependency reg nm c target) = cleanVersion c
   \<and> \<not> needsUpdate (analyzeDependency reg nm c target)
   \<and> analysis (analyze reg pkg target)
       = map (\<lambda>(n, c). analyzeDependency reg n c target) (allDeps pkg)
   \<and> (\<forall>n c info. n \<noteq> nm \<longrightarrow>
         analyzeDependency reg n c target
           = analyzeDependency (reg(nm := Inr info)) n c target)"
proof -
  have "analyzeDependency reg n c' target
      = analyzeDependency (reg(nm := Inr info)) n c' target"
    if "n \<noteq> nm" for n c' info
    using that by (intro analyzeDependency_local [symmetric]) simp
  then show ?thesis
    using analyzeDependency_unavailable [of reg nm e, OF assms]
    by (simp only: analysis_analyze) blast
qed

lemma eval_registry_left_pad: "example_registry ''left-pad'' = Inl (HttpError 404)"
  by code_simp

lemma eval_allDeps_batch:
  "allDeps manifest_batch = [(''ngx-lib'', ''^1.5.0''), (''left-pad'', ''~2.0.0'')]"
  by code_simp

lemma eval_clean_tilde: "cleanVersion ''~2.0.0'' = ''2.0.0''"
  by code_simp

text \<open>
  Claim C8 at a manifest with the dependencies \<^verbatim>\<open>ngx-lib\<close> and \<^verbatim>\<open>left-pad\<close>, where the
  lookup of \<^verbatim>\<open>left-pad\<close> fails.
\<close>

theorem registry_unavailable_fallback_witness:
  "example_registry ''left-pad'' = Inl (HttpError 404)
   \<and> allDeps manifest_batch = [(''ngx-lib'', ''^1.5.0''), (''left-pad'', ''~2.0.0'')]
   \<and> recommendedVersion (analyzeDependency example_registry ''left-pad'' ''~2.0.0'' ''17'')
       = ''2.0.0''
   \<and> \<not> needsUpdate (analyzeDependency example_registry ''left-pad'' ''~2.0.0'' ''17'')
   \<and> analysis (analyze example_registry manifest_batch ''17'')
       = [analyzeDependency example_registry ''ngx-lib'' ''^1.5.0'' ''17'',
          analyzeDependency example_registry ''left-pad'' ''~2.0.0'' ''17'']
   \<and> analyzeDependency example_registry ''ngx-lib'' ''^1.5.0'' ''17''
       = analyzeDependency (example_registry(''left-pad'' := Inr info_ngx))
           ''ngx-lib'' ''^1.5.0'' ''17''"
proof -
  have 4: "''ngx-lib'' \<noteq> ''left-pad''" by simp
  from registry_unavailable_fallback
    [where reg = example_registry and nm = "''left-pad''" and c = "''~2.0.0''"
      and target = "''17''" and pkg = manifest_batch, OF eval_registry_left_pad] 4
  show ?thesis
    by (simp add: eval_registry_left_pad eval_allDeps_batch eval_clean_tilde)
qed

section \<open>No downgrade\<close>

text \<open>
  For a package that is not framework-core the recommended version never compares below
  the cleaned current version.
\<close>

lemma ecosystem_no_downgrade:
  assumes "reg nm = Inr info" "\<not> is_core_name nm"
    and "getBestVersion reg nm target cur = Some r"
  shows "0 \<le> registry_compareVersions r (cleanVersion cur)"
proof -
  let ?P = "\<lambda>version. 0 \<le> registry_compareVersions version (cleanVersion cur)"
  let ?sorted = "sortVersionsDescending
      (findVersionsCompatibleWithAngular info target (isPreReleaseVersion (cleanVersion cur)))"
  have same: "0 \<le> registry_compareVersions (cleanVersion cur) (cleanVersion cur)"
    by (simp add: registry_compareVersions_def compare_loop_same)
  show ?thesis
  proof (cases "find ?P ?sorted")
    case None
    with assms have "r = fallback_version info (cleanVersion cur)"
      by (simp add: getBestVersion_ecosystem [of reg nm info])
    with same show ?thesis by (simp add: fallback_version_def Let_def)
  next
    case (Some v)
    with assms have "r = v" by (simp add: getBestVersion_ecosystem [of reg nm info])
    moreover from Some have "?P v" by (auto simp: find_Some_iff)
    ultimately show ?thesis by simp
  qed
qed

subsection \<open>Evaluation of the examples\<close>

lemma eval_best_forms:
  "getBestVersion example_registry ''@angular/forms'' ''17'' ''^18.0.0'' = Some ''17.0.0''"
  by code_simp

lemma eval_best_core:
  "getBestVersion example_registry ''@angular/core'' ''17'' ''^17.2.0'' = Some ''17.1.0''"
  by code_simp

lemma eval_best_ngx:
  "getBestVersion example_registry ''ngx-lib'' ''17'' ''^1.5.0'' = Some ''2.0.0''"
  by code_simp

lemma eval_clean:
  "cleanVersion ''^18.0.0'' = ''18.0.0''"
  "cleanVersion ''^17.2.0'' = ''17.2.0''"
  "cleanVersion ''^1.5.0'' = ''1.5.0''"
  "cleanVersion [] = []"
  by code_simp+

lemma eval_registry_compare:
  "registry_compareVersions ''17.0.0'' ''18.0.0'' = - 1"
  "registry_compareVersions ''17.1.0'' ''17.2.0'' = - 1"
  by code_simp+

lemma eval_analyzer_compare:
  "analyzer_compareVersions ''18.0.0'' ''17.0.0'' = 1"
  "analyzer_compareVersions ''1.5.0'' ''2.0.0'' = - 1"
  by code_simp+

lemma eval_names:
  "isAngularPackageName ''@angular/forms''"
  "\<not> isAngularEcosystemPackage ''@angular/forms''"
  "\<not> isAngularPackageName ''ngx-lib''"
  "isAngularEcosystemPackage ''ngx-lib''"
  "\<not> isAngularPackageName ''left-pad''"
  "\<not> isAngularEcosystemPackage ''left-pad''"
  by code_simp+

lemma eval_entry_forms:
  "analyzeDependency example_registry ''@angular/forms'' ''^18.0.0'' ''17'' =
     \<lparr> name = ''@angular/forms'', currentVersion = ''18.0.0'', latestVersion = ''17.0.0'',
       recommendedVersion = ''17.0.0'', isAngularPackage = True, needsUpdate = False,
       risk = low, notes = ''Current version is newer'' \<rparr>"
  by (simp add: analyzeDependency_def Let_def eval_best_forms eval_clean
      eval_analyzer_compare eval_names)

lemma eval_entry_ngx:
  "analyzeDependency example_registry ''ngx-lib'' ''^1.5.0'' ''17'' =
     \<lparr> name = ''ngx-lib'', currentVersion = ''1.5.0'', latestVersion = ''2.0.0'',
       recommendedVersion = ''2.0.0'', isAngularPackage = False, needsUpdate = True,
       risk = medium,
       notes = ''Update available - verify compatibility with Angular 17'' \<rparr>"
  by (simp add: analyzeDependency_def Let_def eval_best_ngx eval_clean
      eval_analyzer_compare eval_names)

lemma eval_entry_left_pad_empty:
  "analyzeDependency example_registry ''left-pad'' [] ''17'' =
     \<lparr> name = ''left-pad'', currentVersion = [], latestVersion = [],
       recommendedVersion = [], isAngularPackage = False, needsUpdate = False,
       risk = low, notes = ''Up to date'' \<rparr>"
  by (simp add: analyzeDependency_def Let_def eval_clean eval_names
      getBestVersion_unavailable [of example_registry "''left-pad''", OF eval_registry_left_pad] analyzer_compareVersions_same)

lemma eval_entry_left_pad:
  "analyzeDependency example_registry ''left-pad'' ''~2.0.0'' ''17'' =
     \<lparr> name = ''left-pad'', currentVersion = ''2.0.0'', latestVersion = ''2.0.0'',
       recommendedVersion = ''2.0.0'', isAngularPackage = False, needsUpdate = False,
       risk = low, notes = ''Up to date'' \<rparr>"
  by (simp add: analyzeDependency_def Let_def eval_clean_tilde eval_names
      getBestVersion_unavailable [of example_registry "''left-pad''", OF eval_registry_left_pad] analyzer_compareVersions_same)

lemma eval_allDeps:
  "allDeps manifest_empty_constraint = [(''left-pad'', []), (''ngx-lib'', ''^1.5.0'')]"
  "allDeps manifest_both_groups = [(''ngx-lib'', ''^1.5.0''), (''left-pad'', ''~2.0.0'')]"
  "allDeps manifest_forms = [(''@angular/forms'', ''^18.0.0'')]"
  by code_simp+

text \<open>
  Claim C1. The recommended version is claimed never to compare below the cleaned
  current version. For a framework-core package it does: with the registry versions
  17.0.0 and 18.0.0 of \<^verbatim>\<open>@angular/forms\<close>, target 17 and the current constraint
  \<^verbatim>\<open>^18.0.0\<close>, the resolver returns 17.0.0 although the registry offers 18.0.0, and
  the analyzer notes that the current version is newer. With the registry versions
  17.0.0 and 17.1.0 of \<^verbatim>\<open>@angular/core\<close> and the current constraint \<^verbatim>\<open>^17.2.0\<close>, where
  the registry has nothing as high as the current version, it returns 17.1.0 and not
  the current version.
\<close>

theorem framework_core_downgrade:
  "example_registry ''@angular/forms'' = Inr info_forms
   \<and> map fst (versions info_forms) = [''17.0.0'', ''18.0.0'']
   \<and> getBestVersion example_registry ''@angular/forms'' ''17'' ''^18.0.0'' = Some ''17.0.0''
   \<and> cleanVersion ''^18.0.0'' = ''18.0.0''
   \<and> registry_compareVersions ''17.0.0'' ''18.0.0'' = - 1
   \<and> registry_compareVersions ''18.0.0'' ''18.0.0'' = 0
   \<and> analyzeDependency example_registry ''@angular/forms'' ''^18.0.0'' ''17'' =
       \<lparr> name = ''@angular/forms'', currentVersion = ''18.0.0'', latestVersion = ''17.0.0'',
         recommendedVersion = ''17.0.0'', isAngularPackage = True, needsUpdate = False,
         risk = low, notes = ''Current version is newer'' \<rparr>
   \<and> example_registry ''@angular/core'' = Inr info_core
   \<and> map fst (versions info_core) = [''17.0.0'', ''17.1.0'']
   \<and> getBestVersion example_registry ''@angular/core'' ''17'' ''^17.2.0'' = Some ''17.1.0''
   \<and> cleanVersion ''^17.2.0'' = ''17.2.0''
   \<and> registry_compareVersions ''17.1.0'' ''17.2.0'' = - 1"
  by (simp add: eval_best_forms eval_best_core eval_clean eval_registry_compare
      eval_entry_forms registry_compareVersions_same example_registry_def info_forms_def
      info_core_def)

section \<open>The updated manifest\<close>

lemma map_of_set_prop: "map_of (set_prop obj k v) = (map_of obj)(k \<mapsto> v)"
  by (induction obj) (auto simp: fun_eq_iff)

lemma get_prop_set_prop:
  "get_prop (set_prop obj k v) k' = (if k' = k then v else get_prop obj k')"
  by (simp add: get_prop_def map_of_set_prop)

lemma keys_set_prop:
  "map fst (set_prop obj k v) = (if k \<in> set (map fst obj) then map fst obj else map fst obj @ [k])"
  by (induction obj) (auto simp: image_iff, force+)

text \<open>
  The frame of \<^verbatim>\<open>buildResult\<close>: every field other than the two groups has its original
  value, the fields keep their order, and a missing group is added at the end.
\<close>

lemma buildResult_frame:
  "original (buildResult obj analyses) = obj"
  "analysis (buildResult obj analyses) = analyses"
  "k \<noteq> ''dependencies'' \<Longrightarrow> k \<noteq> ''devDependencies'' \<Longrightarrow>
     get_prop (updated (buildResult obj analyses)) k = get_prop obj k"
  "map fst (updated (buildResult obj analyses)) =
     map fst obj
     @ filter (\<lambda>k. k \<notin> set (map fst obj)) [''dependencies'', ''devDependencies'']"
  by (simp_all add: buildResult_def Let_def get_prop_set_prop keys_set_prop)

lemma summary_consistent:
  "total (summary (buildResult obj analyses)) = length analyses"
  "needsUpdateCount (summary (buildResult obj analyses)) = length (filter needsUpdate analyses)"
  "lowRisk (summary (buildResult obj analyses)) + mediumRisk (summary (buildResult obj analyses))
     + highRisk (summary (buildResult obj analyses)) = length analyses"
proof -
  have "length (filter (\<lambda>a. risk a = low) xs) + length (filter (\<lambda>a. risk a = medium) xs)
      + length (filter (\<lambda>a. risk a = high) xs) = length xs" for xs :: "DependencyAnalysis list"
  proof (induction xs)
    case Nil
    then show ?case by simp
  next
    case (Cons a xs)
    then show ?case by (cases "risk a") simp_all
  qed
  then show "lowRisk (summary (buildResult obj analyses))
     + mediumRisk (summary (buildResult obj analyses))
     + highRisk (summary (buildResult obj analyses)) = length analyses"
    by (simp add: buildResult_def Let_def)
qed (simp_all add: buildResult_def Let_def)

lemma fill_other:
  "n \<notin> name ` set analyses \<Longrightarrow>
   map_of (foldl (\<lambda>acc a. if P (name a) then set_prop acc (name a) (v a) else acc)
             acc analyses) n = map_of acc n"
  by (induction analyses arbitrary: acc) (simp_all add: map_of_set_prop)

lemma fill_entry:
  "distinct (map name analyses) \<Longrightarrow> a \<in> set analyses \<Longrightarrow> P (name a) \<Longrightarrow>
   map_of (foldl (\<lambda>acc a. if P (name a) then set_prop acc (name a) (v a) else acc)
             acc analyses) (name a) = Some (v a)"
proof (induction analyses arbitrary: acc)
  case Nil
  then show ?case by simp
next
  case (Cons x xs)
  show ?case
  proof (cases "a = x")
    case True
    with Cons.prems have "name a \<notin> name ` set xs" by auto
    from fill_other [OF this, of P v] True Cons.prems(3) show ?thesis
      by (simp add: map_of_set_prop)
  next
    case False
    with Cons show ?thesis by simp
  qed
qed

lemma rewritten_map_entry:
  assumes "distinct (map name analyses)" "a \<in> set analyses"
    and "has_truthy_entry deps (name a)"
  shows "map_of (rewritten_map deps analyses) (name a) = Some (''^'' @ recommendedVersion a)"
  unfolding rewritten_map_def
  by (rule fill_entry [of analyses a "has_truthy_entry deps"
        "\<lambda>a. ''^'' @ recommendedVersion a", OF assms])

text \<open>
  What \<^verbatim>\<open>buildResult\<close> does rewrite: an analyzed dependency whose original constraint
  in a group is not empty has the constraint \<^verbatim>\<open>^<recommendedVersion>\<close> in the updated
  group.
\<close>

lemma buildResult_rewrites:
  assumes "distinct (map name analyses)" "a \<in> set analyses"
    and "has_truthy_entry (get_prop obj ''dependencies'') (name a)"
  shows "\<exists>m. get_prop (updated (buildResult obj analyses)) ''dependencies'' = StringMap m
     \<and> map_of m (name a) = Some (''^'' @ recommendedVersion a)"
proof -
  let ?m = "rewritten_map (get_prop obj ''dependencies'') analyses"
  have entry: "map_of ?m (name a) = Some (''^'' @ recommendedVersion a)"
    by (rule rewritten_map_entry [OF assms])
  then have "?m \<noteq> []" by auto
  then have "get_prop (updated (buildResult obj analyses)) ''dependencies'' = StringMap ?m"
    by (simp add: buildResult_def Let_def get_prop_set_prop)
  with entry show ?thesis by blast
qed

lemma buildResult_rewrites_dev:
  assumes "distinct (map name analyses)" "a \<in> set analyses"
    and "has_truthy_entry (get_prop obj ''devDependencies'') (name a)"
  shows "\<exists>m. get_prop (updated (buildResult obj analyses)) ''devDependencies'' = StringMap m
     \<and> map_of m (name a) = Some (''^'' @ recommendedVersion a)"
proof -
  let ?m = "rewritten_map (get_prop obj ''devDependencies'') analyses"
  have entry: "map_of ?m (name a) = Some (''^'' @ recommendedVersion a)"
    by (rule rewritten_map_entry [OF assms])
  then have "?m \<noteq> []" by auto
  then have "get_prop (updated (buildResult obj analyses)) ''devDependencies'' = StringMap ?m"
    by (simp add: buildResult_def Let_def get_prop_set_prop)
  with entry show ?thesis by blast
qed

text \<open>
  Claim C9. Every analyzed dependency is claimed to be rewritten to
  \<^verbatim>\<open>^<recommendedVersion>\<close> in both groups, with the order of the fields kept. In the
  manifest with the dependencies \<^verbatim>\<open>left-pad\<close> (constraint the empty string) and
  \<^verbatim>\<open>ngx-lib\<close>, both are analyzed, and \<^verbatim>\<open>left-pad\<close> is missing from the updated
  \<^verbatim>\<open>dependencies\<close>. In the manifest that lists \<^verbatim>\<open>ngx-lib\<close> in both groups, the
  updated \<^verbatim>\<open>devDependencies\<close> have \<^verbatim>\<open>ngx-lib\<close> before \<^verbatim>\<open>left-pad\<close>, the reverse of
  the original order.
\<close>

theorem buildResult_drops_empty_constraint:
  "manifest_empty_constraint =
     [(''name'', Other ''demo''),
      (''dependencies'', StringMap [(''left-pad'', []), (''ngx-lib'', ''^1.5.0'')])]
   \<and> manifest_both_groups =
       [(''name'', Other ''demo''),
        (''dependencies'', StringMap [(''ngx-lib'', ''^1.5.0'')]),
        (''devDependencies'', StringMap [(''left-pad'', ''~2.0.0''), (''ngx-lib'', ''^1.5.0'')])]
   \<and> analysis (analyze example_registry manifest_empty_constraint ''17'') =
     [\<lparr> name = ''left-pad'', currentVersion = [], latestVersion = [],
        recommendedVersion = [], isAngularPackage = False, needsUpdate = False,
        risk = low, notes = ''Up to date'' \<rparr>,
      \<lparr> name = ''ngx-lib'', currentVersion = ''1.5.0'', latestVersion = ''2.0.0'',
        recommendedVersion = ''2.0.0'', isAngularPackage = False, needsUpdate = True,
        risk = medium,
        notes = ''Update available - verify compatibility with Angular 17'' \<rparr>]
   \<and> updated (analyze example_registry manifest_empty_constraint ''17'') =
       [(''name'', Other ''demo''),
        (''dependencies'', StringMap [(''ngx-lib'', ''^2.0.0'')]),
        (''devDependencies'', Undefined)]
   \<and> updated (analyze example_registry manifest_both_groups ''17'') =
       [(''name'', Other ''demo''),
        (''dependencies'', StringMap [(''ngx-lib'', ''^2.0.0'')]),
        (''devDependencies'', StringMap [(''ngx-lib'', ''^2.0.0''), (''left-pad'', ''^2.0.0'')])]"
proof -
  have 1: "analyze example_registry manifest_empty_constraint ''17'' =
      buildResult manifest_empty_constraint
        [analyzeDependency example_registry ''left-pad'' [] ''17'',
         analyzeDependency example_registry ''ngx-lib'' ''^1.5.0'' ''17'']"
    by (simp add: analyze_def eval_allDeps Let_def)
  have 2: "analyze example_registry manifest_both_groups ''17'' =
      buildResult manifest_both_groups
        [analyzeDependency example_registry ''ngx-lib'' ''^1.5.0'' ''17'',
         analyzeDependency example_registry ''left-pad'' ''~2.0.0'' ''17'']"
    by (simp add: analyze_def eval_allDeps Let_def)
  show ?thesis
    unfolding 1 2 eval_entry_left_pad_empty eval_entry_ngx eval_entry_left_pad
    by (simp add: buildResult_def rewritten_map_def has_truthy_entry_def map_entries_def
        get_prop_def manifest_empty_constraint_def manifest_both_groups_def Let_def)
qed

end
